theory Spec2Isabelle
  imports Main "HOL-Library.Word"
begin

unbundle bit_operations_syntax

section \<open>The postmaster: data model\<close>

text \<open>
  The source is the postmaster of PostgreSQL (the file under
  \<^verbatim>\<open>src/interfaces/ecpg/include/ecpglib.h\<close> holds \<^verbatim>\<open>postmaster.c\<close>).
  The embedding follows the build without \<^verbatim>\<open>EXEC_BACKEND\<close> and without
  \<^verbatim>\<open>WIN32\<close>: children are made by \<^verbatim>\<open>fork()\<close> and the list of backends is the
  postmaster's own \<^verbatim>\<open>BackendList\<close>.

  Process ids (\<^verbatim>\<open>pid_t\<close>, a C \<^verbatim>\<open>int\<close>) and the other C integers on which
  no arithmetic is done are \<open>int\<close>; values read off the wire are \<open>32 word\<close> and
  are converted where the source casts them.
\<close>

type_synonym pid_t = int

text \<open>\<^verbatim>\<open>typedef struct bkend { pid_t pid; long cancel_key; } Backend;\<close>\<close>

record Backend =
  pid :: pid_t
  cancel_key :: int

datatype signal = SIGHUP | SIGINT | SIGQUIT | SIGTERM | SIGUSR1 | SIGUSR2 | SIGSTOP | SIGCHLD

datatype elevel = DEBUG4 | DEBUG2 | LOG | COMMERROR | WARNING

text \<open>
  What a process does to the world, in the order it does it: \<^verbatim>\<open>kill(pid, sig)\<close>,
  an \<^verbatim>\<open>ereport\<close> below \<^verbatim>\<open>FATAL\<close> (it goes to the server log only), bytes handed
  to \<^verbatim>\<open>send()\<close> on the client socket, a child made by \<^verbatim>\<open>fork()\<close>, and the
  re-creation of shared memory.
\<close>

datatype effect =
    Kill pid_t signal
  | Ereport elevel string
  | Send string
  | Forked string pid_t
  | ResetShared

text \<open>\<^verbatim>\<open>enum CAC_state\<close>, in the order of its use in \<^verbatim>\<open>ProcessStartupPacket\<close>.\<close>

datatype CAC_state = CAC_OK | CAC_STARTUP | CAC_SHUTDOWN | CAC_RECOVERY | CAC_TOOMANY

text \<open>The shutdown levels are the \<^verbatim>\<open>#define\<close>s of the source; \<^verbatim>\<open>Shutdown\<close> is an \<^verbatim>\<open>int\<close>.\<close>

definition NoShutdown :: int where "NoShutdown = 0"
definition SmartShutdown :: int where "SmartShutdown = 1"
definition FastShutdown :: int where "FastShutdown = 2"

text \<open>
  The global variables of the postmaster. \<open>BackendList\<close> is the \<^verbatim>\<open>Dllist\<close>, head
  first. \<open>exit_status\<close> is \<open>Some n\<close> once \<^verbatim>\<open>ExitPostmaster(n)\<close> has been called
  (\<^verbatim>\<open>proc_exit\<close> does not return); \<open>trace\<close> collects the effects, oldest first;
  \<open>nsys\<close> counts the calls answered by the operating system so far. \<open>live_rows\<close>
  is the number of \<^verbatim>\<open>Backend\<close> structures obtained from \<^verbatim>\<open>malloc\<close> and not yet
  given back by \<^verbatim>\<open>free\<close>.
\<close>

record postmaster =
  BackendList :: "Backend list"
  StartupPID :: pid_t
  BgWriterPID :: pid_t
  PgArchPID :: pid_t
  PgStatPID :: pid_t
  SysLoggerPID :: pid_t
  Shutdown :: int
  FatalError :: bool
  MyCancelKey :: int
  exit_status :: "int option"
  trace :: "effect list"
  nsys :: nat
  live_rows :: int

text \<open>
  Settings fixed while the handlers run: GUC variables, command-line switches and the
  compile-time switch \<^verbatim>\<open>USE_SSL\<close>.
\<close>

record config =
  MaxBackends :: int
  SendStop :: bool
  XLogArchivingActive :: bool
  Redirect_stderr :: bool
  USE_SSL :: bool
  EnableSSL :: bool
  Db_user_namespace :: bool

text \<open>
  The answers of the operating system and of the external collaborators, indexed by the
  number of the call: the value \<^verbatim>\<open>fork()\<close> (or \<^verbatim>\<open>pgarch_start\<close>,
  \<^verbatim>\<open>pgstat_start\<close>, \<^verbatim>\<open>SysLogger_Start\<close>) returns in the parent, the value of
  \<^verbatim>\<open>random()\<close>, whether \<^verbatim>\<open>malloc\<close> and \<^verbatim>\<open>set_noblock\<close> succeed.
\<close>

record os =
  fork_ret :: "nat \<Rightarrow> int"
  random_ret :: "nat \<Rightarrow> int"
  malloc_ok :: "nat \<Rightarrow> bool"
  set_noblock_ok :: "nat \<Rightarrow> bool"

definition emit :: "effect \<Rightarrow> postmaster \<Rightarrow> postmaster" where
  "emit e s = s\<lparr>trace := trace s @ [e]\<rparr>"

definition ereport :: "elevel \<Rightarrow> string \<Rightarrow> postmaster \<Rightarrow> postmaster" where
  "ereport lev msg s = emit (Ereport lev msg) s"

definition kill :: "pid_t \<Rightarrow> signal \<Rightarrow> postmaster \<Rightarrow> postmaster" where
  "kill p sig s = emit (Kill p sig) s"

definition tick :: "postmaster \<Rightarrow> postmaster" where
  "tick s = s\<lparr>nsys := Suc (nsys s)\<rparr>"

text \<open>
  \<^verbatim>\<open>malloc(sizeof(Backend))\<close>: the operating system says whether it succeeds; a
  structure obtained is counted. \<^verbatim>\<open>free\<close> of such a structure uncounts it.
\<close>

definition malloc_Backend :: "os \<Rightarrow> postmaster \<Rightarrow> bool \<times> postmaster" where
  "malloc_Backend sys s =
     (let ok = malloc_ok sys (nsys s); s1 = tick s in
      if ok then (True, s1\<lparr>live_rows := live_rows s1 + 1\<rparr>) else (False, s1))"

definition free_Backend :: "postmaster \<Rightarrow> postmaster" where
  "free_Backend s = s\<lparr>live_rows := live_rows s - 1\<rparr>"

text \<open>
  The value of a C \<^verbatim>\<open>int\<close> expression whose mathematical value is \<open>x\<close>: 32 bits,
  two's complement, wrapping around on overflow.
\<close>

definition C_int :: "int \<Rightarrow> int" where
  "C_int x = sint (word_of_int x :: 32 word)"

section \<open>Admission control\<close>

text \<open>\<^verbatim>\<open>CountChildren\<close>: the loop walks the list and counts.\<close>

fun CountChildren_loop :: "Backend list \<Rightarrow> int \<Rightarrow> int" where
  "CountChildren_loop [] cnt = cnt"
| "CountChildren_loop (bp # succ) cnt = CountChildren_loop succ (cnt + 1)"

definition CountChildren :: "postmaster \<Rightarrow> int" where
  "CountChildren s = CountChildren_loop (BackendList s) 0"

text \<open>
  \<^verbatim>\<open>canAcceptConnections\<close>, the tests in the order of the source. \<^verbatim>\<open>if (StartupPID)\<close>
  is a test against 0. \<^verbatim>\<open>2 * MaxBackends\<close> is a product of C \<^verbatim>\<open>int\<close>s and wraps
  around when the setting is outside \<open>-2^30 .. 2^30 - 1\<close>.
\<close>

definition canAcceptConnections :: "config \<Rightarrow> postmaster \<Rightarrow> CAC_state" where
  "canAcceptConnections cfg s =
     (if Shutdown s > NoShutdown then CAC_SHUTDOWN
      else if StartupPID s \<noteq> 0 then CAC_STARTUP
      else if FatalError s then CAC_RECOVERY
      else if CountChildren s \<ge> C_int (2 * MaxBackends cfg) then CAC_TOOMANY
      else CAC_OK)"

section \<open>Signals to the backends, starting children\<close>

text \<open>
  The port of a connection (\<^verbatim>\<open>struct Port\<close>, of which the postmaster reads the local
  address family and sets \<^verbatim>\<open>canAcceptConnections\<close>; the other fields are filled by
  the child in \<^verbatim>\<open>ProcessStartupPacket\<close>). \<^verbatim>\<open>char *\<close> fields are \<open>None\<close> for
  \<^verbatim>\<open>NULL\<close>.
\<close>

datatype family = AF_UNIX | AF_INET | AF_INET6

record Port =
  sock :: int
  laddr_family :: family
  proto :: "32 word"
  database_name :: "string option"
  user_name :: "string option"
  cmdline_options :: "string option"
  guc_options :: "string list"
  port_canAcceptConnections :: CAC_state

datatype status = STATUS_OK | STATUS_ERROR

definition ExitPostmaster :: "int \<Rightarrow> postmaster \<Rightarrow> postmaster" where
  "ExitPostmaster st s = s\<lparr>exit_status := Some st\<rparr>"

text \<open>
  \<^verbatim>\<open>LogChildExit\<close> writes one log line at the given level; which of its three wordings
  is used depends on the wait-status macros of the platform, so the line is kept as the
  name of the process.
\<close>

definition LogChildExit :: "elevel \<Rightarrow> string \<Rightarrow> int \<Rightarrow> int \<Rightarrow> postmaster \<Rightarrow> postmaster" where
  "LogChildExit lev procname p exitstatus s = ereport lev (procname @ '' exited'') s"

fun SignalChildren_loop :: "signal \<Rightarrow> Backend list \<Rightarrow> postmaster \<Rightarrow> postmaster" where
  "SignalChildren_loop sig [] s = s"
| "SignalChildren_loop sig (bp # succ) s =
     SignalChildren_loop sig succ
       (kill (pid bp) sig (ereport DEBUG4 ''sending signal to process'' s))"

definition SignalChildren :: "signal \<Rightarrow> postmaster \<Rightarrow> postmaster" where
  "SignalChildren sig s = SignalChildren_loop sig (BackendList s) s"

datatype xlop = BS_XLOG_STARTUP | BS_XLOG_BGWRITER

text \<open>
  \<^verbatim>\<open>StartChildProcess\<close>, in the parent: \<^verbatim>\<open>fork()\<close> answers with a negative value on
  failure and with the child's pid otherwise. A failed fork of the startup process ends
  the postmaster.
\<close>

definition StartChildProcess :: "os \<Rightarrow> xlop \<Rightarrow> postmaster \<Rightarrow> pid_t \<times> postmaster" where
  "StartChildProcess sys x s =
     (let p = fork_ret sys (nsys s); s1 = tick s in
      if p < 0 then
        (let s2 = (case x of
                     BS_XLOG_STARTUP \<Rightarrow> ereport LOG ''could not fork startup process'' s1
                   | BS_XLOG_BGWRITER \<Rightarrow>
                       ereport LOG ''could not fork background writer process'' s1)
         in if x = BS_XLOG_STARTUP then (0, ExitPostmaster 1 s2) else (0, s2))
      else (p, emit (Forked (case x of BS_XLOG_STARTUP \<Rightarrow> ''startup''
                                     | BS_XLOG_BGWRITER \<Rightarrow> ''bgwriter'') p) s1))"

definition StartupDataBase :: "os \<Rightarrow> postmaster \<Rightarrow> pid_t \<times> postmaster" where
  "StartupDataBase sys s = StartChildProcess sys BS_XLOG_STARTUP s"

definition StartBackgroundWriter :: "os \<Rightarrow> postmaster \<Rightarrow> pid_t \<times> postmaster" where
  "StartBackgroundWriter sys s = StartChildProcess sys BS_XLOG_BGWRITER s"

text \<open>
  \<^verbatim>\<open>pgarch_start\<close>, \<^verbatim>\<open>pgstat_start\<close> and \<^verbatim>\<open>SysLogger_Start\<close> live in other files.
  Modelled from the spec: each is a best-effort start of its auxiliary whose result the
  postmaster stores as the auxiliary's pid, 0 when none was started.
\<close>

definition aux_start :: "os \<Rightarrow> string \<Rightarrow> postmaster \<Rightarrow> pid_t \<times> postmaster" where
  "aux_start sys name s =
     (let p = fork_ret sys (nsys s); s1 = tick s in
      if p \<le> 0 then (0, s1) else (p, emit (Forked name p) s1))"

definition pgarch_start :: "os \<Rightarrow> postmaster \<Rightarrow> pid_t \<times> postmaster" where
  "pgarch_start sys s = aux_start sys ''archiver'' s"

definition pgstat_start :: "os \<Rightarrow> postmaster \<Rightarrow> pid_t \<times> postmaster" where
  "pgstat_start sys s = aux_start sys ''stats'' s"

definition SysLogger_Start :: "os \<Rightarrow> postmaster \<Rightarrow> pid_t \<times> postmaster" where
  "SysLogger_Start sys s = aux_start sys ''logger'' s"

section \<open>Shutdown requests\<close>

text \<open>
  The block that \<^verbatim>\<open>pmdie\<close> (twice) and \<^verbatim>\<open>reaper\<close> (once) repeat word for word:
  start the bgwriter if it is not running, tell it to shut down, tell the archiver and
  the statistics collector to quit.
\<close>

definition begin_shutdown :: "os \<Rightarrow> postmaster \<Rightarrow> postmaster" where
  "begin_shutdown sys s =
     (let s1 = (if BgWriterPID s = 0
                then (let (p, s') = StartBackgroundWriter sys s in s'\<lparr>BgWriterPID := p\<rparr>)
                else s);
          s2 = (if BgWriterPID s1 \<noteq> 0 then kill (BgWriterPID s1) SIGUSR2 s1 else s1);
          s3 = (if PgArchPID s2 \<noteq> 0 then kill (PgArchPID s2) SIGQUIT s2 else s2)
      in if PgStatPID s3 \<noteq> 0 then kill (PgStatPID s3) SIGQUIT s3 else s3)"

text \<open>
  \<^verbatim>\<open>pmdie\<close>, the handler of SIGTERM (smart), SIGINT (fast) and SIGQUIT (immediate). It
  is installed for these three signals only; the \<^verbatim>\<open>switch\<close> has no other case.
\<close>

definition pmdie :: "os \<Rightarrow> signal \<Rightarrow> postmaster \<Rightarrow> postmaster" where
  "pmdie sys postgres_signal_arg s0 =
     (let s = ereport DEBUG2 ''postmaster received signal'' s0 in
      case postgres_signal_arg of
        SIGTERM \<Rightarrow>
          if Shutdown s \<ge> SmartShutdown then s
          else
            (let s1 = ereport LOG ''received smart shutdown request''
                        (s\<lparr>Shutdown := SmartShutdown\<rparr>) in
             if BackendList s1 \<noteq> [] then s1
             else if StartupPID s1 \<noteq> 0 \<or> FatalError s1 then s1
             else begin_shutdown sys s1)
      | SIGINT \<Rightarrow>
          if Shutdown s \<ge> FastShutdown then s
          else
            (let s1 = ereport LOG ''received fast shutdown request''
                        (s\<lparr>Shutdown := FastShutdown\<rparr>) in
             if BackendList s1 \<noteq> [] then
               (if \<not> FatalError s1
                then SignalChildren SIGTERM
                       (ereport LOG ''aborting any active transactions'' s1)
                else s1)
             else if StartupPID s1 \<noteq> 0 \<or> FatalError s1 then s1
             else begin_shutdown sys s1)
      | SIGQUIT \<Rightarrow>
          (let s1 = ereport LOG ''received immediate shutdown request'' s;
               s2 = (if StartupPID s1 \<noteq> 0 then kill (StartupPID s1) SIGQUIT s1 else s1);
               s3 = (if BgWriterPID s2 \<noteq> 0 then kill (BgWriterPID s2) SIGQUIT s2 else s2);
               s4 = (if PgArchPID s3 \<noteq> 0 then kill (PgArchPID s3) SIGQUIT s3 else s3);
               s5 = (if PgStatPID s4 \<noteq> 0 then kill (PgStatPID s4) SIGQUIT s4 else s4);
               s6 = (if BackendList s5 \<noteq> [] then SignalChildren SIGQUIT s5 else s5)
           in ExitPostmaster 0 s6)
      | _ \<Rightarrow> s)"

text \<open>
  \<^verbatim>\<open>SIGHUP_handler\<close>. Re-reading the configuration files is the work of other modules;
  the settings the postmaster's own handlers read are kept.
\<close>

definition SIGHUP_handler :: "postmaster \<Rightarrow> postmaster" where
  "SIGHUP_handler s =
     (if Shutdown s \<le> SmartShutdown then
        (let s1 = SignalChildren SIGHUP
                    (ereport LOG ''received SIGHUP, reloading configuration files'' s);
             s2 = (if BgWriterPID s1 \<noteq> 0 then kill (BgWriterPID s1) SIGHUP s1 else s1);
             s3 = (if PgArchPID s2 \<noteq> 0 then kill (PgArchPID s2) SIGHUP s2 else s2)
         in if SysLoggerPID s3 \<noteq> 0 then kill (SysLoggerPID s3) SIGHUP s3 else s3)
      else s)"

text \<open>
  \<^verbatim>\<open>sigusr1_handler\<close>; the two flags are the answers of \<^verbatim>\<open>CheckPostmasterSignal\<close>
  for waking the children and waking the archiver (the third reason, reloading the user
  and group files, changes nothing the postmaster state holds).
\<close>

definition sigusr1_handler :: "bool \<Rightarrow> bool \<Rightarrow> postmaster \<Rightarrow> postmaster" where
  "sigusr1_handler waken_children waken_archiver s =
     (let s1 = (if waken_children \<and> Shutdown s \<le> SmartShutdown
                then SignalChildren SIGUSR1 s else s)
      in if PgArchPID s1 \<noteq> 0 \<and> Shutdown s1 = NoShutdown \<and> waken_archiver
         then kill (PgArchPID s1) SIGUSR1 s1 else s1)"

section \<open>The reaper\<close>

text \<open>
  The loop of \<^verbatim>\<open>HandleChildCrash\<close> over the backends: the entry of the dead process
  is unlinked and freed, every other backend is told to quit (or to stop, under \<^verbatim>\<open>SendStop\<close>)
  unless a crash was already being handled. The result is the list that remains.
\<close>

fun HandleChildCrash_loop ::
  "config \<Rightarrow> pid_t \<Rightarrow> Backend list \<Rightarrow> postmaster \<Rightarrow> Backend list \<times> postmaster" where
  "HandleChildCrash_loop cfg p [] s = ([], s)"
| "HandleChildCrash_loop cfg p (bp # succ) s =
     (if pid bp = p then HandleChildCrash_loop cfg p succ (free_Backend s)
      else
        (let s1 = (if \<not> FatalError s
                   then kill (pid bp) (if SendStop cfg then SIGSTOP else SIGQUIT)
                          (ereport DEBUG2 ''sending signal to process'' s)
                   else s);
             (kept, s2) = HandleChildCrash_loop cfg p succ s1
         in (bp # kept, s2)))"

definition HandleChildCrash ::
  "config \<Rightarrow> pid_t \<Rightarrow> int \<Rightarrow> string \<Rightarrow> postmaster \<Rightarrow> postmaster" where
  "HandleChildCrash cfg p exitstatus procname s =
     (let s1 = (if \<not> FatalError s
                then ereport LOG ''terminating any other active server processes''
                       (LogChildExit LOG procname p exitstatus s)
                else s);
          (kept, s2) = HandleChildCrash_loop cfg p (BackendList s1) s1;
          s3 = s2\<lparr>BackendList := kept\<rparr>;
          s4 = (if p = BgWriterPID s3 then s3\<lparr>BgWriterPID := 0\<rparr>
                else if BgWriterPID s3 \<noteq> 0 \<and> \<not> FatalError s3
                then kill (BgWriterPID s3) (if SendStop cfg then SIGSTOP else SIGQUIT)
                       (ereport DEBUG2 ''sending signal to process'' s3)
                else s3);
          s5 = (if PgArchPID s4 \<noteq> 0 \<and> \<not> FatalError s4
                then kill (PgArchPID s4) SIGQUIT
                       (ereport DEBUG2 ''sending SIGQUIT to process'' s4)
                else s4);
          s6 = (if PgStatPID s5 \<noteq> 0 \<and> \<not> FatalError s5
                then kill (PgStatPID s5) SIGQUIT
                       (ereport DEBUG2 ''sending SIGQUIT to process'' s5)
                else s5)
      in s6\<lparr>FatalError := True\<rparr>)"

text \<open>
  The loop of \<^verbatim>\<open>CleanupBackend\<close>: the first entry with the pid is unlinked and
  freed, and the loop ends there. The result is the list that remains.
\<close>

fun CleanupBackend_loop ::
  "pid_t \<Rightarrow> Backend list \<Rightarrow> postmaster \<Rightarrow> Backend list \<times> postmaster" where
  "CleanupBackend_loop p [] s = ([], s)"
| "CleanupBackend_loop p (bp # succ) s =
     (if pid bp = p then (succ, free_Backend s)
      else (let (kept, s1) = CleanupBackend_loop p succ s in (bp # kept, s1)))"

definition CleanupBackend :: "config \<Rightarrow> pid_t \<Rightarrow> int \<Rightarrow> postmaster \<Rightarrow> postmaster" where
  "CleanupBackend cfg p exitstatus s =
     (let s1 = LogChildExit DEBUG2 ''server process'' p exitstatus s in
      if exitstatus \<noteq> 0 then HandleChildCrash cfg p exitstatus ''server process'' s1
      else (let (kept, s2) = CleanupBackend_loop p (BackendList s1) s1
            in s2\<lparr>BackendList := kept\<rparr>))"

text \<open>
  The body of the loop of \<^verbatim>\<open>reaper\<close>, for one dead child with its pid and exit
  status: the startup process, the bgwriter, the archiver, the statistics collector, the
  logger, or else a backend. Each branch of the source ends in \<^verbatim>\<open>continue\<close> or in
  \<^verbatim>\<open>ExitPostmaster\<close>. (The \<^verbatim>\<open>Assert(BgWriterPID == 0)\<close> of the first branch is
  compiled out of production builds and is not a branch here.)
\<close>

definition reaper_child :: "os \<Rightarrow> config \<Rightarrow> pid_t \<Rightarrow> int \<Rightarrow> postmaster \<Rightarrow> postmaster" where
  "reaper_child sys cfg p exitstatus s =
     (if StartupPID s \<noteq> 0 \<and> p = StartupPID s then
        (let s1 = s\<lparr>StartupPID := 0\<rparr> in
         if exitstatus \<noteq> 0 then
           ExitPostmaster 1
             (ereport LOG ''aborting startup due to startup process failure''
                (LogChildExit LOG ''startup process'' p exitstatus s1))
         else
           (let s2 = s1\<lparr>FatalError := False\<rparr>;
                (bg, s3) = StartBackgroundWriter sys s2;
                s4 = s3\<lparr>BgWriterPID := bg\<rparr>
            in if Shutdown s4 > NoShutdown \<and> BgWriterPID s4 \<noteq> 0
               then kill (BgWriterPID s4) SIGUSR2 s4
               else if Shutdown s4 = NoShutdown then
                 (let s6 = (if XLogArchivingActive cfg \<and> PgArchPID s4 = 0
                            then (let (a, s') = pgarch_start sys s4 in s'\<lparr>PgArchPID := a\<rparr>)
                            else s4)
                  in if PgStatPID s6 = 0
                     then (let (c, s') = pgstat_start sys s6 in s'\<lparr>PgStatPID := c\<rparr>)
                     else s6)
               else s4))
      else if BgWriterPID s \<noteq> 0 \<and> p = BgWriterPID s then
        (let s1 = s\<lparr>BgWriterPID := 0\<rparr> in
         if exitstatus = 0 \<and> Shutdown s1 > NoShutdown \<and> \<not> FatalError s1
            \<and> BackendList s1 = []
         then ExitPostmaster 0 s1
         else HandleChildCrash cfg p exitstatus ''background writer process'' s1)
      else if PgArchPID s \<noteq> 0 \<and> p = PgArchPID s then
        (let s1 = s\<lparr>PgArchPID := 0\<rparr>;
             s2 = (if exitstatus \<noteq> 0
                   then LogChildExit LOG ''archiver process'' p exitstatus s1 else s1)
         in if XLogArchivingActive cfg \<and> StartupPID s2 = 0 \<and> \<not> FatalError s2
               \<and> Shutdown s2 = NoShutdown
            then (let (a, s') = pgarch_start sys s2 in s'\<lparr>PgArchPID := a\<rparr>)
            else s2)
      else if PgStatPID s \<noteq> 0 \<and> p = PgStatPID s then
        (let s1 = s\<lparr>PgStatPID := 0\<rparr>;
             s2 = (if exitstatus \<noteq> 0
                   then LogChildExit LOG ''statistics collector process'' p exitstatus s1
                   else s1)
         in if StartupPID s2 = 0 \<and> \<not> FatalError s2 \<and> Shutdown s2 = NoShutdown
            then (let (c, s') = pgstat_start sys s2 in s'\<lparr>PgStatPID := c\<rparr>)
            else s2)
      else if SysLoggerPID s \<noteq> 0 \<and> p = SysLoggerPID s then
        (let s1 = s\<lparr>SysLoggerPID := 0\<rparr>;
             (l, s2) = SysLogger_Start sys s1;
             s3 = s2\<lparr>SysLoggerPID := l\<rparr>
         in if exitstatus \<noteq> 0
            then LogChildExit LOG ''system logger process'' p exitstatus s3 else s3)
      else CleanupBackend cfg p exitstatus s)"

text \<open>
  The loop of \<^verbatim>\<open>reaper\<close> over the pending child-death reports: the list holds the
  answers of the successive \<^verbatim>\<open>waitpid(-1, &status, WNOHANG)\<close> calls, and the loop ends
  at the first answer that is not positive (or when no answer is left). After
  \<^verbatim>\<open>ExitPostmaster\<close> nothing more runs.
\<close>

fun reaper_loop :: "os \<Rightarrow> config \<Rightarrow> (pid_t \<times> int) list \<Rightarrow> postmaster \<Rightarrow> postmaster" where
  "reaper_loop sys cfg [] s = s"
| "reaper_loop sys cfg ((p, exitstatus) # pending) s =
     (if \<not> p > 0 then s
      else
        (let s1 = reaper_child sys cfg p exitstatus s in
         if exit_status s1 \<noteq> None then s1 else reaper_loop sys cfg pending s1))"

text \<open>
  \<^verbatim>\<open>reaper\<close>: the loop, then, if the postmaster is still there, the restart after a
  crash (once every backend, the startup process and the bgwriter are gone) or the
  continuation of a pending shutdown.
\<close>

definition reaper :: "os \<Rightarrow> config \<Rightarrow> (pid_t \<times> int) list \<Rightarrow> postmaster \<Rightarrow> postmaster" where
  "reaper sys cfg pending s0 =
     (let s = reaper_loop sys cfg pending (ereport DEBUG4 ''reaping dead processes'' s0) in
      if exit_status s \<noteq> None then s
      else if FatalError s then
        (if BackendList s \<noteq> [] \<or> StartupPID s \<noteq> 0 \<or> BgWriterPID s \<noteq> 0 then s
         else
           (let s1 = emit ResetShared
                       (ereport LOG ''all server processes terminated; reinitializing'' s);
                (p, s2) = StartupDataBase sys s1
            in s2\<lparr>StartupPID := p\<rparr>))
      else if Shutdown s > NoShutdown then
        (if BackendList s \<noteq> [] \<or> StartupPID s \<noteq> 0 then s
         else begin_shutdown sys s)
      else s)"

section \<open>Starting a backend\<close>

text \<open>
  \<^verbatim>\<open>PostmasterRandom\<close> is \<^verbatim>\<open>random()\<close> (seeded at its first call).
\<close>

definition PostmasterRandom :: "os \<Rightarrow> postmaster \<Rightarrow> int \<times> postmaster" where
  "PostmasterRandom sys s = (random_ret sys (nsys s), tick s)"

text \<open>
  \<^verbatim>\<open>report_fork_failure_to_client\<close>: the packet is \<^verbatim>\<open>E\<close>, the message, the text of
  the error number and a newline, cut to the 1000-byte buffer by \<^verbatim>\<open>snprintf\<close>; it is
  sent with its terminating NUL by one \<^verbatim>\<open>send()\<close>, and only if the socket could be
  made non-blocking.
\<close>

definition report_fork_failure_to_client :: "os \<Rightarrow> Port \<Rightarrow> string \<Rightarrow> postmaster \<Rightarrow> postmaster" where
  "report_fork_failure_to_client sys port strerror_errnum s =
     (let buffer = take 999 (''E'' @ ''could not fork new process for connection: ''
                              @ strerror_errnum @ [CHR 0x0A]);
          ok = set_noblock_ok sys (nsys s);
          s1 = tick s
      in if \<not> ok then s1 else emit (Send (buffer @ [CHR 0x00])) s1)"

text \<open>
  \<^verbatim>\<open>BackendStartup\<close>, in the parent. The entry \<^verbatim>\<open>bn\<close> is allocated before the
  fork, freed when the fork fails and linked when it succeeds. The child made by a successful \<^verbatim>\<open>fork()\<close> runs
  \<^verbatim>\<open>BackendRun(port)\<close> with the port as it is at that moment; it is recorded in the
  trace as \<open>Forked ''backend'' pid\<close>. \<open>strerror_errnum\<close> is the text of \<^verbatim>\<open>errno\<close>
  after a failed fork.
\<close>

definition BackendStartup ::
  "os \<Rightarrow> config \<Rightarrow> string \<Rightarrow> Port \<Rightarrow> postmaster \<Rightarrow> status \<times> Port \<times> postmaster" where
  "BackendStartup sys cfg strerror_errnum port s =
     (let (r, s1) = PostmasterRandom sys s;
          s2 = s1\<lparr>MyCancelKey := r\<rparr>;
          (bn_ok, s3) = malloc_Backend sys s2
      in if \<not> bn_ok then (STATUS_ERROR, port, ereport LOG ''out of memory'' s3)
         else
           (let port1 = port\<lparr>port_canAcceptConnections := canAcceptConnections cfg s3\<rparr>;
                p = fork_ret sys (nsys s3);
                s4 = tick s3
            in if p < 0 then
                 (STATUS_ERROR, port1,
                  report_fork_failure_to_client sys port1 strerror_errnum
                    (ereport LOG ''could not fork new process for connection''
                       (free_Backend s4)))
               else
                 (let s5 = ereport DEBUG2 ''forked new backend''
                             (emit (Forked ''backend'' p) s4)
                  in (STATUS_OK, port1,
                      s5\<lparr>BackendList :=
                           \<lparr>pid = p, cancel_key = MyCancelKey s5\<rparr> # BackendList s5\<rparr>))))"

text \<open>
  The part of \<^verbatim>\<open>ServerLoop\<close> that runs after each wait: restart of the logger, the
  bgwriter, the archiver and the statistics collector when they are missing.
\<close>

definition ServerLoop_maintenance :: "os \<Rightarrow> config \<Rightarrow> postmaster \<Rightarrow> postmaster" where
  "ServerLoop_maintenance sys cfg s =
     (let s1 = (if SysLoggerPID s = 0 \<and> Redirect_stderr cfg
                then (let (l, s') = SysLogger_Start sys s in s'\<lparr>SysLoggerPID := l\<rparr>)
                else s);
          s2 = (if BgWriterPID s1 = 0 \<and> StartupPID s1 = 0 \<and> \<not> FatalError s1
                then (let (bg, s') = StartBackgroundWriter sys s1;
                          s'' = s'\<lparr>BgWriterPID := bg\<rparr>
                      in if Shutdown s'' > NoShutdown \<and> BgWriterPID s'' \<noteq> 0
                         then kill (BgWriterPID s'') SIGUSR2 s'' else s'')
                else s1);
          s3 = (if XLogArchivingActive cfg \<and> PgArchPID s2 = 0 \<and> StartupPID s2 = 0
                   \<and> \<not> FatalError s2 \<and> Shutdown s2 = NoShutdown
                then (let (a, s') = pgarch_start sys s2 in s'\<lparr>PgArchPID := a\<rparr>)
                else s2)
      in if PgStatPID s3 = 0 \<and> StartupPID s3 = 0 \<and> \<not> FatalError s3
            \<and> Shutdown s3 = NoShutdown
         then (let (c, s') = pgstat_start sys s3 in s'\<lparr>PgStatPID := c\<rparr>)
         else s3)"

text \<open>
  One thing that happens to the postmaster: a signal, a batch of child deaths (SIGCHLD), a
  connection accepted by \<^verbatim>\<open>ServerLoop\<close>, or the end of a turn of its loop. Signals are
  blocked while a handler runs, so the events are taken one after the other. A postmaster
  that has exited takes no further step.
\<close>

datatype event =
    Sig signal
  | Usr1 bool bool
  | ChildExits "(pid_t \<times> int) list"
  | Connection Port string
  | LoopTurn

definition step :: "os \<Rightarrow> config \<Rightarrow> event \<Rightarrow> postmaster \<Rightarrow> postmaster" where
  "step sys cfg ev s =
     (if exit_status s \<noteq> None then s
      else case ev of
        Sig SIGHUP \<Rightarrow> SIGHUP_handler s
      | Sig SIGTERM \<Rightarrow> pmdie sys SIGTERM s
      | Sig SIGINT \<Rightarrow> pmdie sys SIGINT s
      | Sig SIGQUIT \<Rightarrow> pmdie sys SIGQUIT s
      | Sig _ \<Rightarrow> s
      | Usr1 wc wa \<Rightarrow> sigusr1_handler wc wa s
      | ChildExits pending \<Rightarrow> reaper sys cfg pending s
      | Connection port err \<Rightarrow> snd (snd (BackendStartup sys cfg err port s))
      | LoopTurn \<Rightarrow> ServerLoop_maintenance sys cfg s)"

fun run :: "os \<Rightarrow> config \<Rightarrow> event list \<Rightarrow> postmaster \<Rightarrow> postmaster" where
  "run sys cfg [] s = s"
| "run sys cfg (ev # evs) s = run sys cfg evs (step sys cfg ev s)"

section \<open>The startup packet, in the child\<close>

text \<open>
  The constants and macros of the wire protocol come from a header that is not among the
  sources, so they are parameters of the model: the two projections of a protocol
  version, the earliest and the latest supported version, the two special request codes,
  the length limit, the size of the old fixed-width packet and of its fields, and the
  length of a name.
\<close>

record pqcomm =
  PG_PROTOCOL_MAJOR :: "32 word \<Rightarrow> 32 word"
  PG_PROTOCOL_MINOR :: "32 word \<Rightarrow> 32 word"
  PG_PROTOCOL_EARLIEST :: "32 word"
  PG_PROTOCOL_LATEST :: "32 word"
  CANCEL_REQUEST_CODE :: "32 word"
  NEGOTIATE_SSL_CODE :: "32 word"
  MAX_STARTUP_PACKET_LENGTH :: "32 word"
  sizeof_StartupPacket :: nat
  SM_DATABASE :: nat
  SM_USER :: nat
  SM_OPTIONS :: nat
  NAMEDATALEN :: nat

text \<open>
  What the network does for this connection: whether the one-byte \<^verbatim>\<open>send()\<close> of the
  SSL answer returns 1, and whether \<^verbatim>\<open>secure_open_server\<close> succeeds.
\<close>

record net =
  send_ok :: bool
  secure_open_ok :: bool

datatype errcode =
    ERRCODE_PROTOCOL_VIOLATION
  | ERRCODE_FEATURE_NOT_SUPPORTED
  | ERRCODE_INVALID_AUTHORIZATION_SPECIFICATION
  | ERRCODE_CANNOT_CONNECT_NOW
  | ERRCODE_TOO_MANY_CONNECTIONS

text \<open>
  How \<^verbatim>\<open>ProcessStartupPacket\<close> ends: one of its three return values, or an
  \<^verbatim>\<open>ereport(FATAL, ...)\<close>, which reports the error to the client and ends the process.
\<close>

datatype startup_status =
    PSP_STATUS_OK
  | PSP_STATUS_ERROR
  | PSP_127
  | FATAL errcode string

definition NUL :: char where "NUL = CHR 0x00"

text \<open>
  \<^verbatim>\<open>pq_getbytes(buf, n)\<close> on the bytes the client sends before it closes the
  connection: \<open>None\<close> is \<^verbatim>\<open>EOF\<close>.
\<close>

definition pq_getbytes :: "nat \<Rightarrow> string \<Rightarrow> (string \<times> string) option" where
  "pq_getbytes n inp = (if length inp < n then None else Some (take n inp, drop n inp))"

text \<open>\<^verbatim>\<open>ntohl\<close> of the four bytes at an offset of a buffer.\<close>

definition ntohl_at :: "string \<Rightarrow> nat \<Rightarrow> 32 word" where
  "ntohl_at buf off =
     push_bit 24 (of_char (buf ! off)) OR push_bit 16 (of_char (buf ! (off + 1)))
       OR push_bit 8 (of_char (buf ! (off + 2))) OR of_char (buf ! (off + 3))"

text \<open>The C string that starts at an offset of a buffer; \<^verbatim>\<open>strlen\<close> is its length.\<close>

definition cstr :: "string \<Rightarrow> nat \<Rightarrow> string" where
  "cstr buf off = takeWhile (\<lambda>c. c \<noteq> NUL) (drop off buf)"

text \<open>
  \<^verbatim>\<open>processCancelRequest\<close>. The packet holds the pid and the key after the request
  code, both in network order; the pid is cast to \<^verbatim>\<open>int\<close> and the key to \<^verbatim>\<open>long\<close>
  (64 bits, so the cast keeps the unsigned value). The loop stops at the first backend
  with the pid. The process that runs it is a child of the postmaster and sees the list
  of backends as it was at its fork.
\<close>

fun processCancelRequest_loop :: "Backend list \<Rightarrow> int \<Rightarrow> int \<Rightarrow> effect list" where
  "processCancelRequest_loop [] backendPID cancelAuthCode =
     [Ereport DEBUG2 ''bad pid in cancel request for process'']"
| "processCancelRequest_loop (bp # succ) backendPID cancelAuthCode =
     (if pid bp = backendPID then
        (if cancel_key bp = cancelAuthCode
         then [Ereport DEBUG2 ''processing cancel request: sending SIGINT to process'',
               Kill (pid bp) SIGINT]
         else [Ereport DEBUG2 ''bad key in cancel request for process''])
      else processCancelRequest_loop succ backendPID cancelAuthCode)"

definition processCancelRequest :: "Backend list \<Rightarrow> string \<Rightarrow> effect list" where
  "processCancelRequest bl pkt =
     (let backendPID = sint (ntohl_at pkt 4);
          cancelAuthCode = uint (ntohl_at pkt 8)
      in processCancelRequest_loop bl backendPID cancelAuthCode)"

text \<open>
  The loop of \<^verbatim>\<open>ProcessStartupPacket\<close> over the name/value pairs of a version-3
  packet. It returns the offset at which it stopped and the port it filled.
\<close>

function scan_options :: "string \<Rightarrow> nat \<Rightarrow> nat \<Rightarrow> Port \<Rightarrow> nat \<times> Port" where
  "scan_options buf len offset port =
     (if offset < len then
        (if buf ! offset = NUL then (offset, port)
         else
           (let nameptr = cstr buf offset;
                valoffset = offset + length nameptr + 1
            in if valoffset \<ge> len then (offset, port)
               else
                 (let valptr = cstr buf valoffset;
                      port1 =
                        (if nameptr = ''database'' then port\<lparr>database_name := Some valptr\<rparr>
                         else if nameptr = ''user'' then port\<lparr>user_name := Some valptr\<rparr>
                         else if nameptr = ''options''
                         then port\<lparr>cmdline_options := Some valptr\<rparr>
                         else port\<lparr>guc_options := guc_options port @ [nameptr, valptr]\<rparr>)
                  in scan_options buf len (valoffset + length valptr + 1) port1)))
      else (offset, port))"
  by pat_completeness auto
termination
  by (relation "measure (\<lambda>(buf, len, offset, port). len - offset)") auto

text \<open>
  The end of \<^verbatim>\<open>ProcessStartupPacket\<close>, block by block. First: the database name
  defaults to the user name.
\<close>

definition default_database :: "Port \<Rightarrow> Port" where
  "default_database port =
     (if database_name port = None \<or> database_name port = Some []
      then port\<lparr>database_name := user_name port\<rparr> else port)"

text \<open>
  Under \<^verbatim>\<open>Db_user_namespace\<close>: a user name whose only \<^verbatim>\<open>@\<close> is its last
  character loses it (\<^verbatim>\<open>strchr\<close> finds the first \<^verbatim>\<open>@\<close>); any other user name gets
  \<^verbatim>\<open>@\<close> and the database name appended.
\<close>

definition user_namespace :: "config \<Rightarrow> Port \<Rightarrow> Port" where
  "user_namespace cfg port =
     (let u = the (user_name port); d = the (database_name port) in
      if Db_user_namespace cfg then
        (if CHR ''@'' \<in> set u
            \<and> length (takeWhile (\<lambda>c. c \<noteq> CHR ''@'') u) = length u - 1
         then port\<lparr>user_name := Some (takeWhile (\<lambda>c. c \<noteq> CHR ''@'') u)\<rparr>
         else port\<lparr>user_name := Some (u @ ''@'' @ d)\<rparr>)
      else port)"

text \<open>Both names are cut to the length of a Postgres name.\<close>

definition truncate_names :: "pqcomm \<Rightarrow> Port \<Rightarrow> Port" where
  "truncate_names pq port =
     (let port1 = (if length (the (database_name port)) \<ge> NAMEDATALEN pq
                   then port\<lparr>database_name :=
                               Some (take (NAMEDATALEN pq - 1) (the (database_name port)))\<rparr>
                   else port)
      in if length (the (user_name port1)) \<ge> NAMEDATALEN pq
         then port1\<lparr>user_name := Some (take (NAMEDATALEN pq - 1) (the (user_name port1)))\<rparr>
         else port1)"

text \<open>
  The \<^verbatim>\<open>switch\<close> on the verdict the postmaster passed down (the last message
  without its first word).
\<close>

definition reject_by_state :: "Port \<Rightarrow> startup_status" where
  "reject_by_state port =
     (case port_canAcceptConnections port of
        CAC_STARTUP \<Rightarrow>
          FATAL ERRCODE_CANNOT_CONNECT_NOW ''the database system is starting up''
      | CAC_SHUTDOWN \<Rightarrow>
          FATAL ERRCODE_CANNOT_CONNECT_NOW ''the database system is shutting down''
      | CAC_RECOVERY \<Rightarrow>
          FATAL ERRCODE_CANNOT_CONNECT_NOW ''the database system is in recovery mode''
      | CAC_TOOMANY \<Rightarrow>
          FATAL ERRCODE_TOO_MANY_CONNECTIONS ''too many clients already''
      | CAC_OK \<Rightarrow> PSP_STATUS_OK)"

text \<open>
  The blocks in sequence, after the check that a user name was given.
\<close>

definition finish_startup :: "pqcomm \<Rightarrow> config \<Rightarrow> Port \<Rightarrow> startup_status \<times> Port" where
  "finish_startup pq cfg port =
     (if user_name port = None \<or> user_name port = Some [] then
        (FATAL ERRCODE_INVALID_AUTHORIZATION_SPECIFICATION
           ''no PostgreSQL user name specified in startup packet'', port)
      else
        (let port1 = truncate_names pq (user_namespace cfg (default_database port))
         in (reject_by_state port1, port1)))"

text \<open>
  The middle of \<^verbatim>\<open>ProcessStartupPacket\<close>: the check of the protocol version, then
  the parameters, from the name/value pairs of a version-3 packet or from the fixed-width
  fields of an older one (\<^verbatim>\<open>pstrdup\<close> of a field reads up to the next NUL, so the
  copy is cut to the size of the field).
\<close>

definition startup_params ::
  "pqcomm \<Rightarrow> config \<Rightarrow> Port \<Rightarrow> string \<Rightarrow> nat \<Rightarrow> startup_status \<times> Port" where
  "startup_params pq cfg port buf len =
     (let v = proto port in
      if PG_PROTOCOL_MAJOR pq v < PG_PROTOCOL_MAJOR pq (PG_PROTOCOL_EARLIEST pq)
         \<or> PG_PROTOCOL_MAJOR pq v > PG_PROTOCOL_MAJOR pq (PG_PROTOCOL_LATEST pq)
         \<or> (PG_PROTOCOL_MAJOR pq v = PG_PROTOCOL_MAJOR pq (PG_PROTOCOL_LATEST pq)
            \<and> PG_PROTOCOL_MINOR pq v > PG_PROTOCOL_MINOR pq (PG_PROTOCOL_LATEST pq))
      then (FATAL ERRCODE_FEATURE_NOT_SUPPORTED ''unsupported frontend protocol'', port)
      else if PG_PROTOCOL_MAJOR pq v \<ge> 3 then
        (let (offset, port1) = scan_options buf len 4 (port\<lparr>guc_options := []\<rparr>)
         in if offset \<noteq> len - 1
            then (FATAL ERRCODE_PROTOCOL_VIOLATION
                    ''invalid startup packet layout: expected terminator as last byte'',
                  port1)
            else finish_startup pq cfg port1)
      else
        (let db = cstr buf 4;
             db1 = (if length db > SM_DATABASE pq then take (SM_DATABASE pq) db else db);
             us = cstr buf (4 + SM_DATABASE pq);
             us1 = (if length us > SM_USER pq then take (SM_USER pq) us else us);
             op = cstr buf (4 + SM_DATABASE pq + SM_USER pq);
             op1 = (if length op > SM_OPTIONS pq then take (SM_OPTIONS pq) op else op)
         in finish_startup pq cfg
              (port\<lparr>database_name := Some db1, user_name := Some us1,
                    cmdline_options := Some op1, guc_options := []\<rparr>)))"

text \<open>
  \<^verbatim>\<open>ProcessStartupPacket(port, SSLdone)\<close> on the bytes \<open>inp\<close> the client sends. The
  length word is an \<^verbatim>\<open>int32\<close>: the subtraction wraps and the two comparisons are
  signed. The buffer is the body followed by the zero bytes of \<^verbatim>\<open>palloc0\<close>. The result
  is the status, the port and the effects in order.
\<close>

function ProcessStartupPacket ::
  "pqcomm \<Rightarrow> config \<Rightarrow> net \<Rightarrow> Backend list \<Rightarrow> Port \<Rightarrow> bool \<Rightarrow> string
     \<Rightarrow> startup_status \<times> Port \<times> effect list" where
  "ProcessStartupPacket pq cfg nw bl port SSLdone inp =
     (case pq_getbytes 4 inp of
        None \<Rightarrow>
          (PSP_STATUS_ERROR, port,
           if \<not> SSLdone then [Ereport COMMERROR ''incomplete startup packet''] else [])
      | Some (lenbytes, inp1) \<Rightarrow>
          (let len = ntohl_at lenbytes 0 - 4 in
           if len <s 4 \<or> MAX_STARTUP_PACKET_LENGTH pq <s len then
             (PSP_STATUS_ERROR, port, [Ereport COMMERROR ''invalid length of startup packet''])
           else
             (case pq_getbytes (unat len) inp1 of
                None \<Rightarrow>
                  (PSP_STATUS_ERROR, port, [Ereport COMMERROR ''incomplete startup packet''])
              | Some (body, inp2) \<Rightarrow>
                  (let buf = body @ replicate
                               (max (unat len) (sizeof_StartupPacket pq) + 1 - unat len) NUL;
                       port1 = port\<lparr>proto := ntohl_at buf 0\<rparr>
                   in if proto port1 = CANCEL_REQUEST_CODE pq then
                        (PSP_127, port1, processCancelRequest bl buf)
                      else if proto port1 = NEGOTIATE_SSL_CODE pq \<and> \<not> SSLdone then
                        (let SSLok =
                               (if USE_SSL cfg then
                                  (if \<not> EnableSSL cfg \<or> laddr_family port1 = AF_UNIX
                                   then CHR ''N'' else CHR ''S'')
                                else CHR ''N'')
                         in if \<not> send_ok nw then
                              (PSP_STATUS_ERROR, port1,
                               [Send [SSLok],
                                Ereport COMMERROR ''failed to send SSL negotiation response''])
                            else if USE_SSL cfg \<and> SSLok = CHR ''S'' \<and> \<not> secure_open_ok nw
                            then (PSP_STATUS_ERROR, port1, [Send [SSLok]])
                            else
                              (let (st, port2, tr) =
                                     ProcessStartupPacket pq cfg nw bl port1 True inp2
                               in (st, port2, Send [SSLok] # tr)))
                      else
                        (let (st, port2) = startup_params pq cfg port1 buf (unat len)
                         in (st, port2, []))))))"
  by pat_completeness auto
termination
  by (relation "measure (\<lambda>(pq, cfg, nw, bl, port, SSLdone, inp). if SSLdone then 0 else 1)")
     auto

text \<open>
  \<^verbatim>\<open>BackendRun\<close>, as far as the postmaster's part of the connection goes: the child
  reads the startup packet with \<^verbatim>\<open>SSLdone = false\<close>; any status but
  \<^verbatim>\<open>STATUS_OK\<close> ends it with \<^verbatim>\<open>proc_exit(0)\<close>, and after \<^verbatim>\<open>STATUS_OK\<close> it goes
  on to authenticate the client.
\<close>

datatype child_end = Authenticate Port | ProcExit int | FatalExit errcode string

definition BackendRun ::
  "pqcomm \<Rightarrow> config \<Rightarrow> net \<Rightarrow> Backend list \<Rightarrow> Port \<Rightarrow> string \<Rightarrow> child_end \<times> effect list" where
  "BackendRun pq cfg nw bl port inp =
     (let (st, port1, tr) = ProcessStartupPacket pq cfg nw bl port False inp in
      case st of
        PSP_STATUS_OK \<Rightarrow> (Authenticate port1, tr)
      | FATAL code msg \<Rightarrow> (FatalExit code msg, tr)
      | _ \<Rightarrow> (ProcExit 0, tr))"

declare scan_options.simps [simp del]
declare ProcessStartupPacket.simps [simp del]

text \<open>
  One accepted connection, in both processes: \<^verbatim>\<open>ServerLoop\<close> calls
  \<^verbatim>\<open>BackendStartup\<close> in the postmaster, and if the fork succeeded the child runs
  \<^verbatim>\<open>BackendRun\<close> on the bytes \<open>inp\<close> of the client, with the port and the list of
  backends as they were at the fork.
\<close>

definition accept_connection ::
  "pqcomm \<Rightarrow> os \<Rightarrow> config \<Rightarrow> net \<Rightarrow> string \<Rightarrow> Port \<Rightarrow> string \<Rightarrow> postmaster
     \<Rightarrow> status \<times> postmaster \<times> (child_end \<times> effect list) option" where
  "accept_connection pq sys cfg nw err port inp s =
     (let (st, port1, s1) = BackendStartup sys cfg err port s in
      (st, s1,
       if st = STATUS_OK then Some (BackendRun pq cfg nw (BackendList s) port1 inp)
       else None))"

text \<open>
  A startup message as it is on the wire: four bytes of length, which count themselves,
  then the body; the length of the body is at least that of a protocol version and at
  most the maximum. The first four bytes of the body are the discriminator.
\<close>

definition wire_packet :: "pqcomm \<Rightarrow> string \<Rightarrow> string \<Rightarrow> bool" where
  "wire_packet pq lb body \<longleftrightarrow>
     length lb = 4 \<and> \<not> (ntohl_at lb 0 - 4) <s 4
     \<and> \<not> MAX_STARTUP_PACKET_LENGTH pq <s (ntohl_at lb 0 - 4)
     \<and> length body = unat (ntohl_at lb 0 - 4)"

text \<open>The buffer \<^verbatim>\<open>ProcessStartupPacket\<close> allocates for a body: the body and zeroes.\<close>

definition packet_buf :: "pqcomm \<Rightarrow> string \<Rightarrow> string" where
  "packet_buf pq body =
     body @ replicate (max (length body) (sizeof_StartupPacket pq) + 1 - length body) NUL"

text \<open>
  The rejection of a version in the words of the specification: the major version is
  below the earliest supported, or above the latest supported, or equal to the latest
  with a minor version above the latest minor.
\<close>

definition spec_rejects_version :: "pqcomm \<Rightarrow> 32 word \<Rightarrow> bool" where
  "spec_rejects_version pq v \<longleftrightarrow>
     PG_PROTOCOL_MAJOR pq v < PG_PROTOCOL_MAJOR pq (PG_PROTOCOL_EARLIEST pq)
     \<or> PG_PROTOCOL_MAJOR pq (PG_PROTOCOL_LATEST pq) < PG_PROTOCOL_MAJOR pq v
     \<or> (PG_PROTOCOL_MAJOR pq v = PG_PROTOCOL_MAJOR pq (PG_PROTOCOL_LATEST pq)
        \<and> PG_PROTOCOL_MINOR pq (PG_PROTOCOL_LATEST pq) < PG_PROTOCOL_MINOR pq v)"

text \<open>
  The answer to a secure-negotiation request in the words of the specification: S if
  secure transport is available and the endpoint is a network one, else N.
\<close>

definition spec_ssl_answer :: "config \<Rightarrow> Port \<Rightarrow> char" where
  "spec_ssl_answer cfg port =
     (if USE_SSL cfg \<and> EnableSSL cfg \<and> laddr_family port \<noteq> AF_UNIX
      then CHR ''S'' else CHR ''N'')"

text \<open>Whether the state keeps the shutdown level of another (used by the proofs).\<close>

definition keeps :: "postmaster \<Rightarrow> postmaster \<Rightarrow> bool" where
  "keeps s t \<longleftrightarrow> Shutdown t = Shutdown s"

section \<open>Example states and packets\<close>

definition cfg0 :: config where
  "cfg0 = \<lparr>MaxBackends = 2, SendStop = False, XLogArchivingActive = False,
           Redirect_stderr = False, USE_SSL = True, EnableSSL = True,
           Db_user_namespace = False\<rparr>"

text \<open>A running postmaster with no backend: the state after a clean boot.\<close>

definition running0 :: postmaster where
  "running0 = \<lparr>BackendList = [], StartupPID = 0, BgWriterPID = 11, PgArchPID = 0,
               PgStatPID = 12, SysLoggerPID = 0, Shutdown = 0, FatalError = False,
               MyCancelKey = 0, exit_status = None, trace = [], nsys = 0,
               live_rows = 0\<rparr>"

definition bk :: "pid_t \<Rightarrow> int \<Rightarrow> Backend" where
  "bk p k = \<lparr>pid = p, cancel_key = k\<rparr>"

definition os0 :: os where
  "os0 = \<lparr>fork_ret = (\<lambda>k. 100 + int k), random_ret = (\<lambda>k. 1000 + int k),
          malloc_ok = (\<lambda>k. True), set_noblock_ok = (\<lambda>k. True)\<rparr>"

definition port0 :: Port where
  "port0 = \<lparr>sock = 7, laddr_family = AF_INET, proto = 0, database_name = None,
            user_name = None, cmdline_options = None, guc_options = [],
            port_canAcceptConnections = CAC_OK\<rparr>"

text \<open>
  A postmaster in crash recovery: a backend is started, it dies on a signal, the bgwriter
  and the statistics collector follow, and the startup process is launched again.
\<close>

definition crash_recovery0 :: postmaster where
  "crash_recovery0 =
     run os0 cfg0
       [Connection port0 [], ChildExits [(102, 11)], ChildExits [(11, 3), (12, 3)]]
       running0"

text \<open>
  Modelled from the spec: the header that declares the protocol macros is not among the
  sources. The specification has a 32-bit discriminator read as MAJOR.MINOR, version 3.0
  accepted and followed by name/value pairs, version 4.0 newer than the latest supported,
  and a fixed maximum length. The instance used for evaluation takes the major version
  from the upper 16 bits and the minor from the lower 16, supports 1.0 to 3.0, has the
  request codes 1234.5678 (cancel) and 1234.5679 (SSL), the length limit 10000, and the
  field sizes 64, 32 and 64 in a fixed-width packet of 292 bytes.
\<close>

definition pqcomm_h :: pqcomm where
  "pqcomm_h = \<lparr>PG_PROTOCOL_MAJOR = (\<lambda>v. drop_bit 16 v),
               PG_PROTOCOL_MINOR = (\<lambda>v. v AND 0xffff),
               PG_PROTOCOL_EARLIEST = 0x00010000,
               PG_PROTOCOL_LATEST = 0x00030000,
               CANCEL_REQUEST_CODE = 0x04D2162E,
               NEGOTIATE_SSL_CODE = 0x04D2162F,
               MAX_STARTUP_PACKET_LENGTH = 10000,
               sizeof_StartupPacket = 292,
               SM_DATABASE = 64, SM_USER = 32, SM_OPTIONS = 64,
               NAMEDATALEN = 64\<rparr>"

definition net0 :: net where "net0 = \<lparr>send_ok = True, secure_open_ok = True\<rparr>"

text \<open>Length words and bodies of some packets.\<close>

definition len8 :: string where "len8 = [CHR 0x00, CHR 0x00, CHR 0x00, CHR 0x08]"
definition len16 :: string where "len16 = [CHR 0x00, CHR 0x00, CHR 0x00, CHR 0x10]"
definition len18 :: string where "len18 = [CHR 0x00, CHR 0x00, CHR 0x00, CHR 0x12]"
definition len20 :: string where "len20 = [CHR 0x00, CHR 0x00, CHR 0x00, CHR 0x14]"

text \<open>Version 3.0, user alice, terminator.\<close>

definition body_v3_alice :: string where
  "body_v3_alice = [CHR 0x00, CHR 0x03, CHR 0x00, CHR 0x00]
      @ ''user'' @ [CHR 0x00] @ ''alice'' @ [CHR 0x00, CHR 0x00]"

text \<open>Version 3.0, user bob, and the byte X where the terminator should be.\<close>

definition body_v3_noterm :: string where
  "body_v3_noterm = [CHR 0x00, CHR 0x03, CHR 0x00, CHR 0x00]
      @ ''user'' @ [CHR 0x00] @ ''bob'' @ [CHR 0x00] @ ''X''"

definition body_v4 :: string where
  "body_v4 = [CHR 0x00, CHR 0x04, CHR 0x00, CHR 0x00]"

definition body_ssl :: string where
  "body_ssl = [CHR 0x04, CHR 0xD2, CHR 0x16, CHR 0x2F]"

text \<open>Cancel requests for pid 42, with the keys 0xDEADBEEF and 0.\<close>

definition body_cancel_good :: string where
  "body_cancel_good = [CHR 0x04, CHR 0xD2, CHR 0x16, CHR 0x2E, CHR 0x00, CHR 0x00, CHR 0x00,
      CHR 0x2A, CHR 0xDE, CHR 0xAD, CHR 0xBE, CHR 0xEF]"

definition body_cancel_bad :: string where
  "body_cancel_bad = [CHR 0x04, CHR 0xD2, CHR 0x16, CHR 0x2E, CHR 0x00, CHR 0x00, CHR 0x00,
      CHR 0x2A, CHR 0x00, CHR 0x00, CHR 0x00, CHR 0x00]"

section \<open>Properties of admission control\<close>

lemma CountChildren_loop_length:
  "CountChildren_loop bs cnt = cnt + int (length bs)"
  by (induction bs arbitrary: cnt) simp_all

lemma CountChildren_length: "CountChildren s = int (length (BackendList s))"
  by (simp add: CountChildren_def CountChildren_loop_length)

lemma C_int_in_range: "- 2147483648 \<le> x \<Longrightarrow> x < 2147483648 \<Longrightarrow> C_int x = x"
  by (simp add: C_int_def sint_sbintrunc' signed_take_bit_int_eq_self)

lemma C_int_le: "- 2147483648 \<le> x \<Longrightarrow> C_int x \<le> x"
  by (simp add: C_int_def sint_sbintrunc' signed_take_bit_int_less_eq_self_iff)

lemma C_int_twice:
  "- 1073741824 \<le> m \<Longrightarrow> m < 1073741824 \<Longrightarrow> C_int (2 * m) = 2 * m"
  by (rule C_int_in_range) simp_all

text \<open>
  Outside that range the product wraps: with a maximum of \<open>2^30\<close> the cap is
  \<open>-2^31\<close> and a postmaster without any backend answers too many.
\<close>

lemma canAcceptConnections_wrapped:
  "canAcceptConnections (cfg0\<lparr>MaxBackends := 1073741824\<rparr>) running0 = CAC_TOOMANY"
  by (simp add: canAcceptConnections_def CountChildren_length C_int_def running0_def
      NoShutdown_def)

text \<open>
  C3. The admission verdict depends only on the shutdown level, the startup child, the
  FatalError flag, the number of backends and the configured maximum. For a configured
  maximum whose double is a C \<^verbatim>\<open>int\<close> (from \<open>-2^30\<close> to \<open>2^30 - 1\<close>): when exactly
  one reject condition holds the verdict is the one of that condition (startup child
  present: starting up; shutdown level at least SmartShutdown: shutting down; FatalError:
  in recovery; count at least twice the maximum: too many); with none it is Ok. With no
  other condition holding, a count equal to twice the maximum is rejected as too many and
  every count below it is admitted.
\<close>

theorem C3_admission_verdict:
  "(Shutdown s = Shutdown s' \<and> StartupPID s = StartupPID s' \<and> FatalError s = FatalError s'
      \<and> length (BackendList s) = length (BackendList s')
      \<longrightarrow> canAcceptConnections cfg s = canAcceptConnections cfg s')
   \<and> (- 1073741824 \<le> MaxBackends cfg \<and> MaxBackends cfg < 1073741824 \<longrightarrow>
       (StartupPID s \<noteq> 0 \<and> \<not> Shutdown s \<ge> SmartShutdown \<and> \<not> FatalError s
          \<and> \<not> CountChildren s \<ge> 2 * MaxBackends cfg
        \<longrightarrow> canAcceptConnections cfg s = CAC_STARTUP)
     \<and> (Shutdown s \<ge> SmartShutdown \<and> StartupPID s = 0 \<and> \<not> FatalError s
          \<and> \<not> CountChildren s \<ge> 2 * MaxBackends cfg
        \<longrightarrow> canAcceptConnections cfg s = CAC_SHUTDOWN)
     \<and> (FatalError s \<and> StartupPID s = 0 \<and> \<not> Shutdown s \<ge> SmartShutdown
          \<and> \<not> CountChildren s \<ge> 2 * MaxBackends cfg
        \<longrightarrow> canAcceptConnections cfg s = CAC_RECOVERY)
     \<and> (CountChildren s \<ge> 2 * MaxBackends cfg \<and> StartupPID s = 0
          \<and> \<not> Shutdown s \<ge> SmartShutdown \<and> \<not> FatalError s
        \<longrightarrow> canAcceptConnections cfg s = CAC_TOOMANY)
     \<and> (StartupPID s = 0 \<and> \<not> Shutdown s \<ge> SmartShutdown \<and> \<not> FatalError s
          \<and> \<not> CountChildren s \<ge> 2 * MaxBackends cfg
        \<longrightarrow> canAcceptConnections cfg s = CAC_OK)
     \<and> (StartupPID s = 0 \<and> \<not> Shutdown s \<ge> SmartShutdown \<and> \<not> FatalError s
        \<longrightarrow> (int (length (BackendList s)) = 2 * MaxBackends cfg
               \<longrightarrow> canAcceptConnections cfg s = CAC_TOOMANY)
          \<and> (int (length (BackendList s)) < 2 * MaxBackends cfg
               \<longrightarrow> canAcceptConnections cfg s = CAC_OK)))"
proof (intro conjI impI)
  assume "Shutdown s = Shutdown s' \<and> StartupPID s = StartupPID s'
      \<and> FatalError s = FatalError s' \<and> length (BackendList s) = length (BackendList s')"
  then show "canAcceptConnections cfg s = canAcceptConnections cfg s'"
    by (simp add: canAcceptConnections_def CountChildren_length)
qed (simp_all add: canAcceptConnections_def CountChildren_length NoShutdown_def
      SmartShutdown_def C_int_twice)

theorem C3_admission_verdict_witness:
  "canAcceptConnections cfg0 (running0\<lparr>BackendList := [bk 1 5, bk 2 6, bk 3 7, bk 4 8]\<rparr>)
     = CAC_TOOMANY
   \<and> canAcceptConnections cfg0 (running0\<lparr>BackendList := [bk 1 5, bk 2 6, bk 3 7]\<rparr>) = CAC_OK
   \<and> canAcceptConnections cfg0 (running0\<lparr>StartupPID := 9\<rparr>) = CAC_STARTUP
   \<and> canAcceptConnections cfg0 (running0\<lparr>Shutdown := SmartShutdown\<rparr>) = CAC_SHUTDOWN
   \<and> canAcceptConnections cfg0 (running0\<lparr>FatalError := True\<rparr>) = CAC_RECOVERY"
  using C3_admission_verdict
    [of "running0\<lparr>BackendList := [bk 1 5, bk 2 6, bk 3 7, bk 4 8]\<rparr>" "running0" cfg0]
    C3_admission_verdict [of "running0\<lparr>BackendList := [bk 1 5, bk 2 6, bk 3 7]\<rparr>" "running0" cfg0]
    C3_admission_verdict [of "running0\<lparr>StartupPID := 9\<rparr>" "running0" cfg0]
    C3_admission_verdict [of "running0\<lparr>Shutdown := SmartShutdown\<rparr>" "running0" cfg0]
    C3_admission_verdict [of "running0\<lparr>FatalError := True\<rparr>" "running0" cfg0]
  by (simp add: running0_def cfg0_def SmartShutdown_def CountChildren_length)

text \<open>
  C10. When several reject conditions hold at once the verdict follows the order of the
  tests: a shutdown level above none gives shutting down whatever else holds; otherwise a
  startup child gives starting up; otherwise FatalError gives in recovery; otherwise a
  count at the cap gives too many. The cap is the C product \<^verbatim>\<open>2 * MaxBackends\<close>; it
  is twice the maximum unless that is below \<open>-2^31\<close> or above \<open>2^31 - 1\<close>, and a
  count of at least twice the maximum is at the cap for every maximum from \<open>-2^30\<close> up.
\<close>

theorem C10_admission_precedence:
  "(Shutdown s > NoShutdown \<longrightarrow> canAcceptConnections cfg s = CAC_SHUTDOWN)
   \<and> (\<not> Shutdown s > NoShutdown \<and> StartupPID s \<noteq> 0
        \<longrightarrow> canAcceptConnections cfg s = CAC_STARTUP)
   \<and> (\<not> Shutdown s > NoShutdown \<and> StartupPID s = 0 \<and> FatalError s
        \<longrightarrow> canAcceptConnections cfg s = CAC_RECOVERY)
   \<and> (\<not> Shutdown s > NoShutdown \<and> StartupPID s = 0 \<and> \<not> FatalError s
        \<and> - 1073741824 \<le> MaxBackends cfg \<and> CountChildren s \<ge> 2 * MaxBackends cfg
        \<longrightarrow> canAcceptConnections cfg s = CAC_TOOMANY)
   \<and> (\<not> Shutdown s > NoShutdown \<and> StartupPID s = 0 \<and> \<not> FatalError s
        \<and> CountChildren s \<ge> C_int (2 * MaxBackends cfg)
        \<longrightarrow> canAcceptConnections cfg s = CAC_TOOMANY)"
proof -
  have "C_int (2 * MaxBackends cfg) \<le> CountChildren s"
    if "- 1073741824 \<le> MaxBackends cfg" "2 * MaxBackends cfg \<le> CountChildren s"
    using that C_int_le [of "2 * MaxBackends cfg"] by simp
  then show ?thesis
    by (simp add: canAcceptConnections_def)
qed

theorem C10_admission_precedence_witness:
  "canAcceptConnections cfg0
     (running0\<lparr>Shutdown := FastShutdown, StartupPID := 9, FatalError := True,
               BackendList := [bk 1 5, bk 2 6, bk 3 7, bk 4 8]\<rparr>) = CAC_SHUTDOWN
   \<and> canAcceptConnections cfg0
     (running0\<lparr>StartupPID := 9, FatalError := True,
               BackendList := [bk 1 5, bk 2 6, bk 3 7, bk 4 8]\<rparr>) = CAC_STARTUP
   \<and> canAcceptConnections cfg0
     (running0\<lparr>FatalError := True,
               BackendList := [bk 1 5, bk 2 6, bk 3 7, bk 4 8]\<rparr>) = CAC_RECOVERY
   \<and> canAcceptConnections cfg0
     (running0\<lparr>BackendList := [bk 1 5, bk 2 6, bk 3 7, bk 4 8]\<rparr>) = CAC_TOOMANY"
  using C10_admission_precedence
    [of "running0\<lparr>Shutdown := FastShutdown, StartupPID := 9, FatalError := True,
               BackendList := [bk 1 5, bk 2 6, bk 3 7, bk 4 8]\<rparr>" cfg0]
    C10_admission_precedence
    [of "running0\<lparr>StartupPID := 9, FatalError := True,
               BackendList := [bk 1 5, bk 2 6, bk 3 7, bk 4 8]\<rparr>" cfg0]
    C10_admission_precedence
    [of "running0\<lparr>FatalError := True,
               BackendList := [bk 1 5, bk 2 6, bk 3 7, bk 4 8]\<rparr>" cfg0]
    C10_admission_precedence
    [of "running0\<lparr>BackendList := [bk 1 5, bk 2 6, bk 3 7, bk 4 8]\<rparr>" cfg0]
  by (simp add: running0_def cfg0_def NoShutdown_def FastShutdown_def CountChildren_length)

section \<open>Failure of the startup process\<close>

lemma crash_recovery0_eq:
  "crash_recovery0 =
     \<lparr>BackendList = [], StartupPID = 103, BgWriterPID = 0, PgArchPID = 0,
      PgStatPID = 0, SysLoggerPID = 0, Shutdown = 0, FatalError = True,
      MyCancelKey = 1000, exit_status = None,
      trace =
        [Forked ''backend'' 102, Ereport DEBUG2 ''forked new backend'',
         Ereport DEBUG4 ''reaping dead processes'',
         Ereport DEBUG2 ''server process exited'',
         Ereport LOG ''server process exited'',
         Ereport LOG ''terminating any other active server processes'',
         Ereport DEBUG2 ''sending signal to process'', Kill 11 SIGQUIT,
         Ereport DEBUG2 ''sending SIGQUIT to process'', Kill 12 SIGQUIT,
         Ereport DEBUG4 ''reaping dead processes'',
         Ereport LOG ''statistics collector process exited'',
         Ereport LOG ''all server processes terminated; reinitializing'',
         ResetShared, Forked ''startup'' 103],
      nsys = 4, live_rows = 0\<rparr>"
  by code_simp

lemma reaper_startup_failure:
  assumes "StartupPID s \<noteq> 0" "p = StartupPID s" "p > 0" "exitstatus \<noteq> 0"
  shows "reaper sys cfg ((p, exitstatus) # pending) s =
           ExitPostmaster 1
             (ereport LOG ''aborting startup due to startup process failure''
                (LogChildExit LOG ''startup process'' p exitstatus
                   ((ereport DEBUG4 ''reaping dead processes'' s)\<lparr>StartupPID := 0\<rparr>)))"
  using assms
  by (simp add: reaper_def reaper_child_def ExitPostmaster_def ereport_def emit_def
      LogChildExit_def)

text \<open>
  C1, as the claim states it, fails: in crash recovery (FatalError set, a startup process
  running) the nonzero exit of the startup process ends the postmaster with status 1; no
  startup process is launched, and the postmaster takes no further step.
\<close>

theorem C1_counterexample:
  "FatalError crash_recovery0 \<and> StartupPID crash_recovery0 = 103
   \<and> exit_status crash_recovery0 = None
   \<and> exit_status (step os0 cfg0 (ChildExits [(103, 256)]) crash_recovery0) = Some 1
   \<and> StartupPID (step os0 cfg0 (ChildExits [(103, 256)]) crash_recovery0) = 0
   \<and> run os0 cfg0 [ChildExits [(103, 256)], LoopTurn, ChildExits []] crash_recovery0
       = step os0 cfg0 (ChildExits [(103, 256)]) crash_recovery0"
  by (simp add: crash_recovery0_eq step_def reaper_startup_failure ExitPostmaster_def
      ereport_def emit_def LogChildExit_def)

text \<open>
  C1, amended. Whenever the startup process exits with a nonzero status the postmaster
  logs the failure and exits with status 1, whether FatalError is set (crash recovery) or
  not (boot): the flag and the list of backends are left as they were, no call is made to
  the operating system (so no process is forked), and the three log lines are all that
  happens.
\<close>

theorem C1_startup_failure_aborts:
  "StartupPID s \<noteq> 0 \<and> p = StartupPID s \<and> p > 0 \<and> exitstatus \<noteq> 0 \<longrightarrow>
     exit_status (reaper sys cfg ((p, exitstatus) # pending) s) = Some 1
     \<and> StartupPID (reaper sys cfg ((p, exitstatus) # pending) s) = 0
     \<and> FatalError (reaper sys cfg ((p, exitstatus) # pending) s) = FatalError s
     \<and> BackendList (reaper sys cfg ((p, exitstatus) # pending) s) = BackendList s
     \<and> nsys (reaper sys cfg ((p, exitstatus) # pending) s) = nsys s
     \<and> trace (reaper sys cfg ((p, exitstatus) # pending) s)
         = trace s @ [Ereport DEBUG4 ''reaping dead processes'',
                      Ereport LOG ''startup process exited'',
                      Ereport LOG ''aborting startup due to startup process failure'']"
  by (simp add: reaper_startup_failure ExitPostmaster_def ereport_def emit_def
      LogChildExit_def)

theorem C1_startup_failure_aborts_witness:
  "FatalError crash_recovery0
   \<and> exit_status (reaper os0 cfg0 [(103, 256)] crash_recovery0) = Some 1
   \<and> StartupPID (reaper os0 cfg0 [(103, 256)] crash_recovery0) = 0
   \<and> nsys (reaper os0 cfg0 [(103, 256)] crash_recovery0) = 4
   \<and> \<not> FatalError (running0\<lparr>StartupPID := 9\<rparr>)
   \<and> exit_status (reaper os0 cfg0 [(9, 256)] (running0\<lparr>StartupPID := 9\<rparr>)) = Some 1"
  using C1_startup_failure_aborts [of crash_recovery0 103 256 os0 cfg0 "[]"]
    C1_startup_failure_aborts [of "running0\<lparr>StartupPID := 9\<rparr>" 9 256 os0 cfg0 "[]"]
  by (simp add: crash_recovery0_eq running0_def)

section \<open>The startup packet\<close>

lemma sint_le_uint: "sint (w :: 32 word) \<le> uint w"
proof -
  have "- (2 ^ 31) \<le> uint w"
    by (rule order_trans [of _ 0]) simp_all
  then show ?thesis
    by (simp add: sint_uint signed_take_bit_int_less_eq_self_iff)
qed

lemma wire_packet_len: "wire_packet pq lb body \<Longrightarrow> 4 \<le> length body"
proof -
  assume w: "wire_packet pq lb body"
  define len where "len = ntohl_at lb 0 - 4"
  from w have "4 \<le> sint len" and l: "length body = unat len"
    by (simp_all add: wire_packet_def len_def word_sless_alt)
  with sint_le_uint [of len] have "4 \<le> uint len" by linarith
  then have "4 \<le> unat len" by (simp add: unat_eq_nat_uint del: nat_uint_eq)
  with l show ?thesis by simp
qed

lemma PSP_packet:
  assumes "wire_packet pq lb body"
  shows "ProcessStartupPacket pq cfg nw bl port SSLdone (lb @ body @ rest) =
     (let buf = packet_buf pq body;
          port1 = port\<lparr>proto := ntohl_at buf 0\<rparr>
      in if proto port1 = CANCEL_REQUEST_CODE pq then
           (PSP_127, port1, processCancelRequest bl buf)
         else if proto port1 = NEGOTIATE_SSL_CODE pq \<and> \<not> SSLdone then
           (let SSLok =
                  (if USE_SSL cfg then
                     (if \<not> EnableSSL cfg \<or> laddr_family port1 = AF_UNIX
                      then CHR ''N'' else CHR ''S'')
                   else CHR ''N'')
            in if \<not> send_ok nw then
                 (PSP_STATUS_ERROR, port1,
                  [Send [SSLok],
                   Ereport COMMERROR ''failed to send SSL negotiation response''])
               else if USE_SSL cfg \<and> SSLok = CHR ''S'' \<and> \<not> secure_open_ok nw
               then (PSP_STATUS_ERROR, port1, [Send [SSLok]])
               else
                 (let (st, port2, tr) =
                        ProcessStartupPacket pq cfg nw bl port1 True rest
                  in (st, port2, Send [SSLok] # tr)))
         else
           (let (st, port2) = startup_params pq cfg port1 buf (length body)
            in (st, port2, [])))"
  using assms
  apply (subst ProcessStartupPacket.simps)
  apply (simp add: wire_packet_def pq_getbytes_def packet_buf_def Let_def)
  done

lemma ntohl_at_buf: "4 \<le> length body \<Longrightarrow> ntohl_at (packet_buf pq body) 0 = ntohl_at body 0"
  by (auto simp add: ntohl_at_def packet_buf_def nth_append)

lemma proto_scan_options:
  "proto (snd (scan_options buf len offset port)) = proto port"
proof (induction buf len offset port rule: scan_options.induct)
  case (1 buf len offset port)
  let ?name = "cstr buf offset"
  let ?vo = "offset + length ?name + 1"
  let ?val = "cstr buf ?vo"
  let ?port1 = "(if ?name = ''database'' then port\<lparr>database_name := Some ?val\<rparr>
                 else if ?name = ''user'' then port\<lparr>user_name := Some ?val\<rparr>
                 else if ?name = ''options'' then port\<lparr>cmdline_options := Some ?val\<rparr>
                 else port\<lparr>guc_options := guc_options port @ [?name, ?val]\<rparr>)"
  show ?case
  proof (cases "offset < len \<and> buf ! offset \<noteq> NUL \<and> \<not> len \<le> ?vo")
    case True
    then have "proto (snd (scan_options buf len (?vo + length ?val + 1) ?port1))
                 = proto ?port1"
      by (intro "1.IH" [OF _ _ refl refl _ refl refl]) simp_all
    moreover have "scan_options buf len offset port
                     = scan_options buf len (?vo + length ?val + 1) ?port1"
      using True by (subst scan_options.simps) (simp add: Let_def)
    ultimately show ?thesis by simp
  next
    case False
    then show ?thesis
      by (subst scan_options.simps) (auto simp add: Let_def)
  qed
qed

lemma finish_startup_proto:
  "proto (snd (finish_startup pq cfg port)) = proto port"
  by (simp add: finish_startup_def truncate_names_def user_namespace_def
      default_database_def Let_def)

lemma finish_startup_errcode:
  "fst (finish_startup pq cfg port) \<noteq> FATAL ERRCODE_FEATURE_NOT_SUPPORTED msg"
  by (simp add: finish_startup_def reject_by_state_def Let_def split: CAC_state.splits)

lemma startup_params_reject:
  "spec_rejects_version pq (proto port) \<Longrightarrow>
     startup_params pq cfg port buf len =
       (FATAL ERRCODE_FEATURE_NOT_SUPPORTED ''unsupported frontend protocol'', port)"
  by (auto simp add: startup_params_def spec_rejects_version_def Let_def)

lemma startup_params_accept:
  "\<not> spec_rejects_version pq (proto port) \<Longrightarrow>
     fst (startup_params pq cfg port buf len) \<noteq> FATAL ERRCODE_FEATURE_NOT_SUPPORTED msg
     \<and> proto (snd (startup_params pq cfg port buf len)) = proto port"
  using proto_scan_options [of buf len 4 "port\<lparr>guc_options := []\<rparr>"]
  by (auto simp add: startup_params_def spec_rejects_version_def Let_def case_prod_beta
      finish_startup_proto finish_startup_errcode)

lemma cancel_loop_effects:
  "e \<in> set (processCancelRequest_loop bl a k) \<Longrightarrow>
     (\<exists>m. e = Ereport DEBUG2 m) \<or> e = Kill a SIGINT"
  by (induction bl) (auto split: if_splits)

lemma cancel_no_send: "Send b \<notin> set (processCancelRequest bl pkt)"
  by (auto simp add: processCancelRequest_def Let_def dest: cancel_loop_effects)

lemma PSP_SSLdone_no_send:
  "Send b \<notin> set (snd (snd (ProcessStartupPacket pq cfg nw bl port True inp)))"
  by (subst ProcessStartupPacket.simps)
     (auto simp add: Let_def cancel_no_send split: option.splits prod.splits)

lemma PSP_SSLdone_irrelevant:
  "wire_packet pq lb body \<Longrightarrow> ntohl_at body 0 \<noteq> NEGOTIATE_SSL_CODE pq \<Longrightarrow>
     ProcessStartupPacket pq cfg nw bl port True (lb @ body @ rest)
       = ProcessStartupPacket pq cfg nw bl port False (lb @ body @ rest)"
  by (simp add: PSP_packet ntohl_at_buf wire_packet_len [of pq lb body] Let_def)

text \<open>
  C6. For a startup message whose discriminator is taken as a protocol version (it is not
  the cancel request code, and it is the SSL request code only when a negotiation has
  already been done), \<^verbatim>\<open>ProcessStartupPacket\<close> ends with the unsupported-protocol
  error exactly when the specification's condition holds: major below the earliest
  supported, or above the latest, or equal to the latest with a minor above the latest
  minor. A rejected version gives that error and nothing else; every other version passes
  the check; and in both cases the version is recorded in the port.
\<close>

theorem C6_protocol_version_check:
  "wire_packet pq lb body \<and> ntohl_at body 0 \<noteq> CANCEL_REQUEST_CODE pq
     \<and> (ntohl_at body 0 = NEGOTIATE_SSL_CODE pq \<longrightarrow> SSLdone) \<longrightarrow>
   ((\<exists>msg. fst (ProcessStartupPacket pq cfg nw bl port SSLdone (lb @ body @ rest))
            = FATAL ERRCODE_FEATURE_NOT_SUPPORTED msg)
      \<longleftrightarrow> spec_rejects_version pq (ntohl_at body 0))
   \<and> (spec_rejects_version pq (ntohl_at body 0) \<longrightarrow>
        ProcessStartupPacket pq cfg nw bl port SSLdone (lb @ body @ rest)
          = (FATAL ERRCODE_FEATURE_NOT_SUPPORTED ''unsupported frontend protocol'',
             port\<lparr>proto := ntohl_at body 0\<rparr>, []))
   \<and> proto (fst (snd (ProcessStartupPacket pq cfg nw bl port SSLdone (lb @ body @ rest))))
        = ntohl_at body 0"
proof (intro impI, elim conjE)
  assume w: "wire_packet pq lb body"
    and c: "ntohl_at body 0 \<noteq> CANCEL_REQUEST_CODE pq"
    and n: "ntohl_at body 0 = NEGOTIATE_SSL_CODE pq \<longrightarrow> SSLdone"
  let ?v = "ntohl_at body 0"
  let ?port1 = "port\<lparr>proto := ?v\<rparr>"
  let ?sp = "startup_params pq cfg ?port1 (packet_buf pq body) (length body)"
  have unfold: "ProcessStartupPacket pq cfg nw bl port SSLdone (lb @ body @ rest)
                  = (fst ?sp, snd ?sp, [])"
    using c n by (auto simp add: PSP_packet [OF w] ntohl_at_buf wire_packet_len [OF w]
        Let_def case_prod_beta)
  show "((\<exists>msg. fst (ProcessStartupPacket pq cfg nw bl port SSLdone (lb @ body @ rest))
            = FATAL ERRCODE_FEATURE_NOT_SUPPORTED msg)
      \<longleftrightarrow> spec_rejects_version pq ?v)
   \<and> (spec_rejects_version pq ?v \<longrightarrow>
        ProcessStartupPacket pq cfg nw bl port SSLdone (lb @ body @ rest)
          = (FATAL ERRCODE_FEATURE_NOT_SUPPORTED ''unsupported frontend protocol'',
             ?port1, []))
   \<and> proto (fst (snd (ProcessStartupPacket pq cfg nw bl port SSLdone (lb @ body @ rest))))
        = ?v"
  proof (cases "spec_rejects_version pq ?v")
    case True
    then have "?sp = (FATAL ERRCODE_FEATURE_NOT_SUPPORTED ''unsupported frontend protocol'',
                      ?port1)"
      by (simp add: startup_params_reject)
    with True show ?thesis by (simp add: unfold)
  next
    case False
    then have "\<not> spec_rejects_version pq (proto ?port1)" by simp
    from startup_params_accept [OF this] False show ?thesis
      by (simp add: unfold)
  qed
qed


section \<open>Cancel requests\<close>

lemma cancel_loop_kill:
  "Kill p sg \<in> set (processCancelRequest_loop bl a k) \<Longrightarrow>
     sg = SIGINT \<and> p = a \<and> (\<exists>bp \<in> set bl. pid bp = a \<and> cancel_key bp = k)"
  by (induction bl) (auto split: if_splits)

lemma cancel_loop_match:
  "distinct (map pid bl) \<Longrightarrow> bp \<in> set bl \<Longrightarrow> pid bp = a \<Longrightarrow> cancel_key bp = k \<Longrightarrow>
     Kill a SIGINT \<in> set (processCancelRequest_loop bl a k)"
  by (induction bl) (auto split: if_splits)

lemma cancel_loop_one_kill:
  "length (filter (\<lambda>e. \<exists>p sg. e = Kill p sg) (processCancelRequest_loop bl a k)) \<le> 1"
  by (induction bl) (auto split: if_splits)

text \<open>
  C2. A startup message with the cancel request code is handed to
  \<^verbatim>\<open>processCancelRequest\<close> and ends with the return value 127. Every signal that
  \<^verbatim>\<open>processCancelRequest\<close> sends is SIGINT, goes to the pid of the request, and is sent
  only if an entry of the list has that pid and the key of the request. With the pids of
  the list distinct (a pid is in the list from the fork to the reaping of the process),
  SIGINT is sent if and only if some entry has the pid and the key of the request. At
  most one signal is sent, on a wrong key or a missing pid there is only a debug line in
  the server log, and nothing is ever sent to the requester.
\<close>

theorem C2_cancel_request:
  "(wire_packet pq lb body \<and> ntohl_at body 0 = CANCEL_REQUEST_CODE pq \<longrightarrow>
      ProcessStartupPacket pq cfg nw bl port SSLdone (lb @ body @ rest)
        = (PSP_127, port\<lparr>proto := CANCEL_REQUEST_CODE pq\<rparr>,
           processCancelRequest bl (packet_buf pq body)))
   \<and> (Kill p sg \<in> set (processCancelRequest bl pkt) \<longrightarrow>
        sg = SIGINT \<and> p = sint (ntohl_at pkt 4)
        \<and> (\<exists>bp \<in> set bl. pid bp = sint (ntohl_at pkt 4)
                           \<and> cancel_key bp = uint (ntohl_at pkt 8)))
   \<and> (distinct (map pid bl) \<longrightarrow>
        (Kill (sint (ntohl_at pkt 4)) SIGINT \<in> set (processCancelRequest bl pkt)
           \<longleftrightarrow> (\<exists>bp \<in> set bl. pid bp = sint (ntohl_at pkt 4)
                               \<and> cancel_key bp = uint (ntohl_at pkt 8))))
   \<and> length (filter (\<lambda>e. \<exists>p sg. e = Kill p sg) (processCancelRequest bl pkt)) \<le> 1
   \<and> (\<forall>e \<in> set (processCancelRequest bl pkt).
         (\<exists>m. e = Ereport DEBUG2 m) \<or> e = Kill (sint (ntohl_at pkt 4)) SIGINT)
   \<and> Send b \<notin> set (processCancelRequest bl pkt)"
proof (intro conjI impI ballI)
  assume "wire_packet pq lb body \<and> ntohl_at body 0 = CANCEL_REQUEST_CODE pq"
  then have w: "wire_packet pq lb body" and c: "ntohl_at body 0 = CANCEL_REQUEST_CODE pq"
    by simp_all
  show "ProcessStartupPacket pq cfg nw bl port SSLdone (lb @ body @ rest)
        = (PSP_127, port\<lparr>proto := CANCEL_REQUEST_CODE pq\<rparr>,
           processCancelRequest bl (packet_buf pq body))"
    by (simp add: PSP_packet [OF w] ntohl_at_buf wire_packet_len [OF w] c Let_def)
next
  assume "Kill p sg \<in> set (processCancelRequest bl pkt)"
  then show "sg = SIGINT" "p = sint (ntohl_at pkt 4)"
    "\<exists>bp \<in> set bl. pid bp = sint (ntohl_at pkt 4) \<and> cancel_key bp = uint (ntohl_at pkt 8)"
    by (auto simp add: processCancelRequest_def Let_def dest: cancel_loop_kill)
next
  assume "distinct (map pid bl)"
  then show "Kill (sint (ntohl_at pkt 4)) SIGINT \<in> set (processCancelRequest bl pkt)
           \<longleftrightarrow> (\<exists>bp \<in> set bl. pid bp = sint (ntohl_at pkt 4)
                               \<and> cancel_key bp = uint (ntohl_at pkt 8))"
    by (auto simp add: processCancelRequest_def Let_def dest: cancel_loop_kill
        intro: cancel_loop_match)
next
  show "length (filter (\<lambda>e. \<exists>p sg. e = Kill p sg) (processCancelRequest bl pkt)) \<le> 1"
    using cancel_loop_one_kill [of bl "sint (ntohl_at pkt 4)" "uint (ntohl_at pkt 8)"]
    by (simp add: processCancelRequest_def Let_def)
next
  fix e assume "e \<in> set (processCancelRequest bl pkt)"
  then show "(\<exists>m. e = Ereport DEBUG2 m) \<or> e = Kill (sint (ntohl_at pkt 4)) SIGINT"
    by (auto simp add: processCancelRequest_def Let_def dest: cancel_loop_effects)
next
  show "Send b \<notin> set (processCancelRequest bl pkt)" by (rule cancel_no_send)
qed

lemma wire_cancel_good: "wire_packet pqcomm_h len16 body_cancel_good"
  by (simp add: wire_packet_def pqcomm_h_def len16_def body_cancel_good_def ntohl_at_def
      word_sless_alt)

lemma wire_cancel_bad: "wire_packet pqcomm_h len16 body_cancel_bad"
  by (simp add: wire_packet_def pqcomm_h_def len16_def body_cancel_bad_def ntohl_at_def
      word_sless_alt)

theorem C2_cancel_request_witness:
  "ProcessStartupPacket pqcomm_h cfg0 net0 [bk 42 3735928559] port0 False
       (len16 @ body_cancel_good @ [])
     = (PSP_127, port0\<lparr>proto := 0x04D2162E\<rparr>,
        [Ereport DEBUG2 ''processing cancel request: sending SIGINT to process'',
         Kill 42 SIGINT])
   \<and> ProcessStartupPacket pqcomm_h cfg0 net0 [bk 42 3735928559] port0 False
       (len16 @ body_cancel_bad @ [])
     = (PSP_127, port0\<lparr>proto := 0x04D2162E\<rparr>,
        [Ereport DEBUG2 ''bad key in cancel request for process''])
   \<and> distinct (map pid [bk 42 3735928559])
   \<and> Kill 42 SIGINT \<in> set (processCancelRequest [bk 42 3735928559]
                               (packet_buf pqcomm_h body_cancel_good))
   \<and> Kill 42 SIGINT \<notin> set (processCancelRequest [bk 42 3735928559]
                               (packet_buf pqcomm_h body_cancel_bad))"
  using C2_cancel_request [of pqcomm_h len16 body_cancel_good cfg0 net0 "[bk 42 3735928559]"
      port0 False "[]" 42 SIGINT "packet_buf pqcomm_h body_cancel_good" "[]"]
    C2_cancel_request [of pqcomm_h len16 body_cancel_bad cfg0 net0 "[bk 42 3735928559]"
      port0 False "[]" 42 SIGINT "packet_buf pqcomm_h body_cancel_bad" "[]"]
    wire_cancel_good wire_cancel_bad
  by (simp add: processCancelRequest_def packet_buf_def pqcomm_h_def body_cancel_good_def
      body_cancel_bad_def ntohl_at_def bk_def)

section \<open>Evaluation of the example packets\<close>

lemma wire_v3_alice: "wire_packet pqcomm_h len20 body_v3_alice"
  by (simp add: wire_packet_def pqcomm_h_def len20_def body_v3_alice_def ntohl_at_def
      word_sless_alt)

lemma wire_v4: "wire_packet pqcomm_h len8 body_v4"
  by (simp add: wire_packet_def pqcomm_h_def len8_def body_v4_def ntohl_at_def
      word_sless_alt)

lemma wire_ssl: "wire_packet pqcomm_h len8 body_ssl"
  by (simp add: wire_packet_def pqcomm_h_def len8_def body_ssl_def ntohl_at_def
      word_sless_alt)

lemma wire_v3_noterm: "wire_packet pqcomm_h len18 body_v3_noterm"
  by (simp add: wire_packet_def pqcomm_h_def len18_def body_v3_noterm_def ntohl_at_def
      word_sless_alt)

lemma disc_v4: "ntohl_at body_v4 0 = 0x00040000"
  by (simp add: body_v4_def ntohl_at_def)
lemma disc_v3_alice: "ntohl_at body_v3_alice 0 = 0x00030000"
  by (simp add: body_v3_alice_def ntohl_at_def)
lemma disc_v3_noterm: "ntohl_at body_v3_noterm 0 = 0x00030000"
  by (simp add: body_v3_noterm_def ntohl_at_def)
lemma disc_ssl: "ntohl_at body_ssl 0 = 0x04D2162F"
  by (simp add: body_ssl_def ntohl_at_def)

lemma rejects_v4: "spec_rejects_version pqcomm_h 0x00040000"
  by (simp add: spec_rejects_version_def pqcomm_h_def)
lemma accepts_v3: "\<not> spec_rejects_version pqcomm_h 0x00030000"
  by (simp add: spec_rejects_version_def pqcomm_h_def)
lemma rejects_ssl_code: "spec_rejects_version pqcomm_h 0x04D2162F"
  by (simp add: spec_rejects_version_def pqcomm_h_def)

theorem C6_protocol_version_check_witness:
  "ProcessStartupPacket pqcomm_h cfg0 net0 [] port0 False (len8 @ body_v4 @ [])
     = (FATAL ERRCODE_FEATURE_NOT_SUPPORTED ''unsupported frontend protocol'',
        port0\<lparr>proto := 0x00040000\<rparr>, [])
   \<and> (\<nexists>msg. fst (ProcessStartupPacket pqcomm_h cfg0 net0 [] port0 False
                     (len20 @ body_v3_alice @ []))
              = FATAL ERRCODE_FEATURE_NOT_SUPPORTED msg)
   \<and> proto (fst (snd (ProcessStartupPacket pqcomm_h cfg0 net0 [] port0 False
                        (len20 @ body_v3_alice @ [])))) = 0x00030000"
  using C6_protocol_version_check [of pqcomm_h len8 body_v4 False cfg0 net0 "[]" port0 "[]"]
    C6_protocol_version_check [of pqcomm_h len20 body_v3_alice False cfg0 net0 "[]" port0 "[]"]
    wire_v4 wire_v3_alice rejects_v4 accepts_v3
  by (simp add: disc_v4 disc_v3_alice pqcomm_h_def)

lemma PSP_alice_unix:
  "ProcessStartupPacket pqcomm_h cfg0 net0 [] (port0\<lparr>laddr_family := AF_UNIX\<rparr>) False
       (len20 @ body_v3_alice)
     = (PSP_STATUS_OK,
        port0\<lparr>laddr_family := AF_UNIX, proto := 0x00030000, database_name := Some ''alice'',
              user_name := Some ''alice''\<rparr>, [])"
  by code_simp

section \<open>The terminator of a version-3 packet\<close>

lemma PSP_noterm_eval:
  "ProcessStartupPacket pqcomm_h cfg0 net0 [] port0 False (len18 @ body_v3_noterm @ [])
     = (PSP_STATUS_OK,
        port0\<lparr>proto := 0x00030000, database_name := Some ''bob'', user_name := Some ''bob''\<rparr>,
        [])"
  by code_simp

lemma scan_noterm_eval:
  "scan_options (packet_buf pqcomm_h body_v3_noterm) 14 4 (port0\<lparr>proto := 0x00030000\<rparr>)
       = (13, port0\<lparr>proto := 0x00030000, user_name := Some ''bob''\<rparr>)"
  by (simp add: scan_options.simps packet_buf_def pqcomm_h_def body_v3_noterm_def cstr_def NUL_def port0_def)


text \<open>
  C9, at the failing input. The packet declares 18 bytes: version 3.0, the pair user/bob,
  and the byte X where the terminator should be; no byte at or after offset 13 of the
  body is NUL. The loop stops at offset 13 on the missing value, which is the offset the
  final check expects for the terminator, so the packet is accepted and the backend goes
  on to authentication as user bob.
\<close>

theorem C9_unterminated_packet_accepted:
  "wire_packet pqcomm_h len18 body_v3_noterm
   \<and> length body_v3_noterm = 14 \<and> body_v3_noterm ! 13 = CHR ''X''
   \<and> scan_options (packet_buf pqcomm_h body_v3_noterm) 14 4 (port0\<lparr>proto := 0x00030000\<rparr>)
       = (13, port0\<lparr>proto := 0x00030000, user_name := Some ''bob''\<rparr>)
   \<and> ProcessStartupPacket pqcomm_h cfg0 net0 [] port0 False (len18 @ body_v3_noterm)
       = (PSP_STATUS_OK,
          port0\<lparr>proto := 0x00030000, database_name := Some ''bob'',
                user_name := Some ''bob''\<rparr>, [])
   \<and> BackendRun pqcomm_h cfg0 net0 [] port0 (len18 @ body_v3_noterm)
       = (Authenticate (port0\<lparr>proto := 0x00030000, database_name := Some ''bob'',
                              user_name := Some ''bob''\<rparr>), [])"
proof -
  have "length body_v3_noterm = 14" "body_v3_noterm ! 13 = CHR ''X''"
    by (simp_all add: body_v3_noterm_def)
  moreover have "ProcessStartupPacket pqcomm_h cfg0 net0 [] port0 False (len18 @ body_v3_noterm)
       = (PSP_STATUS_OK,
          port0\<lparr>proto := 0x00030000, database_name := Some ''bob'',
                user_name := Some ''bob''\<rparr>, [])"
    by (fact PSP_noterm_eval [simplified])
  ultimately show ?thesis
    by (simp add: wire_v3_noterm scan_noterm_eval BackendRun_def)
qed

section \<open>Secure negotiation\<close>

text \<open>
  C7. A secure-negotiation request is a startup message with the SSL request code, read
  while no negotiation has been done on the connection (\<^verbatim>\<open>BackendRun\<close> calls
  \<^verbatim>\<open>ProcessStartupPacket\<close> with \<^verbatim>\<open>SSLdone = false\<close>). Its handling hands exactly
  one byte to \<^verbatim>\<open>send()\<close>, the first effect of all: S if SSL is compiled in and enabled
  and the local address is not a Unix-domain one, N otherwise; nothing else is sent raw
  afterwards. On a Unix-domain endpoint the byte is N, and when it is followed by a
  startup message that is not another SSL request, that message is processed exactly as
  if it had come first.
\<close>

theorem C7_ssl_negotiation:
  "wire_packet pq lb body \<and> ntohl_at body 0 = NEGOTIATE_SSL_CODE pq
     \<and> NEGOTIATE_SSL_CODE pq \<noteq> CANCEL_REQUEST_CODE pq \<longrightarrow>
   (\<exists>st port' tr.
      ProcessStartupPacket pq cfg nw bl port False (lb @ body @ rest)
        = (st, port', Send [spec_ssl_answer cfg port] # tr)
      \<and> (\<forall>b. Send b \<notin> set tr))
   \<and> (laddr_family port = AF_UNIX \<longrightarrow>
        (\<exists>st port' tr.
           ProcessStartupPacket pq cfg nw bl port False (lb @ body @ rest)
             = (st, port', Send ''N'' # tr)))
   \<and> (laddr_family port = AF_UNIX \<and> send_ok nw \<and> wire_packet pq lb' body'
        \<and> ntohl_at body' 0 \<noteq> NEGOTIATE_SSL_CODE pq \<longrightarrow>
        ProcessStartupPacket pq cfg nw bl port False (lb @ body @ lb' @ body' @ rest')
          = (let (st, port', tr) =
                   ProcessStartupPacket pq cfg nw bl port False (lb' @ body' @ rest')
             in (st, port', Send ''N'' # tr)))"
proof (intro impI, elim conjE)
  assume w: "wire_packet pq lb body"
    and v: "ntohl_at body 0 = NEGOTIATE_SSL_CODE pq"
    and d: "NEGOTIATE_SSL_CODE pq \<noteq> CANCEL_REQUEST_CODE pq"
  let ?port1 = "port\<lparr>proto := NEGOTIATE_SSL_CODE pq\<rparr>"
  let ?inner = "\<lambda>inp. ProcessStartupPacket pq cfg nw bl ?port1 True inp"
  have unfold: "ProcessStartupPacket pq cfg nw bl port False (lb @ body @ inp) =
      (if \<not> send_ok nw then
         (PSP_STATUS_ERROR, ?port1,
          [Send [spec_ssl_answer cfg port],
           Ereport COMMERROR ''failed to send SSL negotiation response''])
       else if spec_ssl_answer cfg port = CHR ''S'' \<and> \<not> secure_open_ok nw
       then (PSP_STATUS_ERROR, ?port1, [Send [spec_ssl_answer cfg port]])
       else (fst (?inner inp), fst (snd (?inner inp)),
             Send [spec_ssl_answer cfg port] # snd (snd (?inner inp))))" for inp
    using v d
    by (simp add: PSP_packet [OF w] ntohl_at_buf wire_packet_len [OF w] Let_def
        case_prod_beta spec_ssl_answer_def)
  have first: "\<exists>st port' tr.
      ProcessStartupPacket pq cfg nw bl port False (lb @ body @ rest)
        = (st, port', Send [spec_ssl_answer cfg port] # tr)
      \<and> (\<forall>b. Send b \<notin> set tr)"
    by (simp add: unfold PSP_SSLdone_no_send)
  have local: "spec_ssl_answer cfg port = CHR ''N''" if "laddr_family port = AF_UNIX"
    using that by (simp add: spec_ssl_answer_def)
  have second: "\<exists>st port' tr.
           ProcessStartupPacket pq cfg nw bl port False (lb @ body @ rest)
             = (st, port', Send ''N'' # tr)" if "laddr_family port = AF_UNIX"
    using first local [OF that] by auto
  have third: "ProcessStartupPacket pq cfg nw bl port False (lb @ body @ lb' @ body' @ rest')
          = (let (st, port', tr) =
                   ProcessStartupPacket pq cfg nw bl port False (lb' @ body' @ rest')
             in (st, port', Send ''N'' # tr))"
    if u: "laddr_family port = AF_UNIX" and s: "send_ok nw"
      and w': "wire_packet pq lb' body'" and v': "ntohl_at body' 0 \<noteq> NEGOTIATE_SSL_CODE pq"
  proof -
    have "?inner (lb' @ body' @ rest')
            = ProcessStartupPacket pq cfg nw bl ?port1 False (lb' @ body' @ rest')"
      by (rule PSP_SSLdone_irrelevant [OF w' v'])
    also have "\<dots> = ProcessStartupPacket pq cfg nw bl port False (lb' @ body' @ rest')"
      by (simp add: PSP_packet [OF w'])
    finally show ?thesis
      using s by (simp add: unfold local [OF u] case_prod_beta)
  qed
  show "(\<exists>st port' tr.
      ProcessStartupPacket pq cfg nw bl port False (lb @ body @ rest)
        = (st, port', Send [spec_ssl_answer cfg port] # tr)
      \<and> (\<forall>b. Send b \<notin> set tr))
   \<and> (laddr_family port = AF_UNIX \<longrightarrow>
        (\<exists>st port' tr.
           ProcessStartupPacket pq cfg nw bl port False (lb @ body @ rest)
             = (st, port', Send ''N'' # tr)))
   \<and> (laddr_family port = AF_UNIX \<and> send_ok nw \<and> wire_packet pq lb' body'
        \<and> ntohl_at body' 0 \<noteq> NEGOTIATE_SSL_CODE pq \<longrightarrow>
        ProcessStartupPacket pq cfg nw bl port False (lb @ body @ lb' @ body' @ rest')
          = (let (st, port', tr) =
                   ProcessStartupPacket pq cfg nw bl port False (lb' @ body' @ rest')
             in (st, port', Send ''N'' # tr)))"
    using first second third by blast
qed

theorem C7_ssl_negotiation_witness:
  "wire_packet pqcomm_h len8 body_ssl
   \<and> (\<exists>st port' tr.
        ProcessStartupPacket pqcomm_h cfg0 net0 [] port0 False (len8 @ body_ssl @ [])
          = (st, port', Send ''S'' # tr))
   \<and> ProcessStartupPacket pqcomm_h cfg0 net0 [] (port0\<lparr>laddr_family := AF_UNIX\<rparr>) False
        (len8 @ body_ssl @ len20 @ body_v3_alice @ [])
       = (PSP_STATUS_OK,
          port0\<lparr>laddr_family := AF_UNIX, proto := 0x00030000,
                database_name := Some ''alice'', user_name := Some ''alice''\<rparr>,
          [Send ''N''])"
proof -
  let ?unix = "port0\<lparr>laddr_family := AF_UNIX\<rparr>"
  have h: "wire_packet pqcomm_h len8 body_ssl
             \<and> ntohl_at body_ssl 0 = NEGOTIATE_SSL_CODE pqcomm_h
             \<and> NEGOTIATE_SSL_CODE pqcomm_h \<noteq> CANCEL_REQUEST_CODE pqcomm_h"
    by (intro conjI wire_ssl) (simp_all add: disc_ssl pqcomm_h_def)
  have h': "laddr_family ?unix = AF_UNIX \<and> send_ok net0
              \<and> wire_packet pqcomm_h len20 body_v3_alice
              \<and> ntohl_at body_v3_alice 0 \<noteq> NEGOTIATE_SSL_CODE pqcomm_h"
    by (intro conjI wire_v3_alice) (simp_all add: disc_v3_alice pqcomm_h_def net0_def)
  have s: "spec_ssl_answer cfg0 port0 = CHR ''S''"
    by (simp add: spec_ssl_answer_def cfg0_def port0_def)
  from h C7_ssl_negotiation [of pqcomm_h len8 body_ssl cfg0 net0 "[]" port0 "[]"
      len20 body_v3_alice "[]"]
  have "\<exists>st port' tr.
          ProcessStartupPacket pqcomm_h cfg0 net0 [] port0 False (len8 @ body_ssl @ [])
            = (st, port', Send [spec_ssl_answer cfg0 port0] # tr) \<and> (\<forall>b. Send b \<notin> set tr)"
    by blast
  then have one: "\<exists>st port' tr.
        ProcessStartupPacket pqcomm_h cfg0 net0 [] port0 False (len8 @ body_ssl @ [])
          = (st, port', Send ''S'' # tr)"
    unfolding s by blast
  from h h' C7_ssl_negotiation [of pqcomm_h len8 body_ssl cfg0 net0 "[]" ?unix "[]"
      len20 body_v3_alice "[]"]
  have "ProcessStartupPacket pqcomm_h cfg0 net0 [] ?unix False
          (len8 @ body_ssl @ len20 @ body_v3_alice @ [])
        = (let (st, port', tr) =
                 ProcessStartupPacket pqcomm_h cfg0 net0 [] ?unix False
                   (len20 @ body_v3_alice @ [])
           in (st, port', Send ''N'' # tr))"
    by blast
  then have two: "ProcessStartupPacket pqcomm_h cfg0 net0 [] ?unix False
        (len8 @ body_ssl @ len20 @ body_v3_alice @ [])
       = (PSP_STATUS_OK,
          port0\<lparr>laddr_family := AF_UNIX, proto := 0x00030000,
                database_name := Some ''alice'', user_name := Some ''alice''\<rparr>,
          [Send ''N''])"
    by (simp add: PSP_alice_unix)
  from h one two show ?thesis by blast
qed

section \<open>Starting a backend: properties\<close>

text \<open>
  C8. \<^verbatim>\<open>BackendStartup\<close>: if the allocation of the entry fails, the result is
  \<^verbatim>\<open>STATUS_ERROR\<close> with a log line and nothing else (\<^verbatim>\<open>fork\<close> is not called).
  If the fork fails, the result is \<^verbatim>\<open>STATUS_ERROR\<close>, the postmaster goes on, and after
  the log line the error packet is handed to one \<^verbatim>\<open>send()\<close> when the socket could be
  made non-blocking, and not at all otherwise; the entry allocated for the connection
  has been freed, so as many structures are allocated as before. In both cases the list
  of backends is unchanged. If the fork succeeds, the entry with the pid of the child and
  the cancel key drawn at the start is linked at the head of the list, and one more
  structure is allocated than before. The list changes only when the result is
  \<^verbatim>\<open>STATUS_OK\<close>, and in every case the number of allocated structures that are not
  in the list is what it was.
\<close>

theorem C8_backend_startup_atomic:
  "(\<not> malloc_ok sys (nsys s + 1) \<longrightarrow>
      BackendStartup sys cfg err port s
        = (STATUS_ERROR, port,
           s\<lparr>MyCancelKey := random_ret sys (nsys s), nsys := nsys s + 2,
             trace := trace s @ [Ereport LOG ''out of memory'']\<rparr>))
   \<and> (malloc_ok sys (nsys s + 1) \<and> fork_ret sys (nsys s + 2) < 0 \<longrightarrow>
        fst (BackendStartup sys cfg err port s) = STATUS_ERROR
        \<and> BackendList (snd (snd (BackendStartup sys cfg err port s))) = BackendList s
        \<and> exit_status (snd (snd (BackendStartup sys cfg err port s))) = exit_status s
        \<and> live_rows (snd (snd (BackendStartup sys cfg err port s))) = live_rows s
        \<and> trace (snd (snd (BackendStartup sys cfg err port s)))
            = trace s @ Ereport LOG ''could not fork new process for connection''
                # (if set_noblock_ok sys (nsys s + 3)
                   then [Send (take 999 (''E'' @ ''could not fork new process for connection: ''
                                         @ err @ [CHR 0x0A]) @ [CHR 0x00])]
                   else []))
   \<and> (malloc_ok sys (nsys s + 1) \<and> \<not> fork_ret sys (nsys s + 2) < 0 \<longrightarrow>
        fst (BackendStartup sys cfg err port s) = STATUS_OK
        \<and> BackendList (snd (snd (BackendStartup sys cfg err port s)))
            = \<lparr>pid = fork_ret sys (nsys s + 2), cancel_key = random_ret sys (nsys s)\<rparr>
                # BackendList s
        \<and> live_rows (snd (snd (BackendStartup sys cfg err port s))) = live_rows s + 1
        \<and> trace (snd (snd (BackendStartup sys cfg err port s)))
            = trace s @ [Forked ''backend'' (fork_ret sys (nsys s + 2)),
                         Ereport DEBUG2 ''forked new backend''])
   \<and> (BackendList (snd (snd (BackendStartup sys cfg err port s))) \<noteq> BackendList s
        \<longrightarrow> fst (BackendStartup sys cfg err port s) = STATUS_OK)
   \<and> live_rows (snd (snd (BackendStartup sys cfg err port s)))
         - int (length (BackendList (snd (snd (BackendStartup sys cfg err port s)))))
       = live_rows s - int (length (BackendList s))"
  by (simp add: BackendStartup_def PostmasterRandom_def report_fork_failure_to_client_def
      malloc_Backend_def free_Backend_def Let_def ereport_def emit_def tick_def
      numeral_3_eq_3)


theorem C8_backend_startup_atomic_witness:
  "BackendStartup (os0\<lparr>malloc_ok := (\<lambda>k. False)\<rparr>) cfg0 ''Cannot allocate memory'' port0 running0
     = (STATUS_ERROR, port0,
        running0\<lparr>MyCancelKey := 1000, nsys := 2, trace := [Ereport LOG ''out of memory'']\<rparr>)
   \<and> BackendList (snd (snd (BackendStartup (os0\<lparr>fork_ret := (\<lambda>k. - 1)\<rparr>) cfg0
                               ''Resource temporarily unavailable'' port0 running0))) = []
   \<and> live_rows (snd (snd (BackendStartup (os0\<lparr>fork_ret := (\<lambda>k. - 1)\<rparr>) cfg0
                             ''Resource temporarily unavailable'' port0 running0))) = 0
   \<and> trace (snd (snd (BackendStartup (os0\<lparr>fork_ret := (\<lambda>k. - 1)\<rparr>) cfg0
                         ''Resource temporarily unavailable'' port0 running0)))
       = [Ereport LOG ''could not fork new process for connection'',
          Send (''Ecould not fork new process for connection: Resource temporarily unavailable''
                @ [CHR 0x0A, CHR 0x00])]
   \<and> BackendStartup os0 cfg0 [] port0 running0
       = (STATUS_OK, port0,
          running0\<lparr>MyCancelKey := 1000, nsys := 3,
                    trace := [Forked ''backend'' 102, Ereport DEBUG2 ''forked new backend''],
                    BackendList := [\<lparr>pid = 102, cancel_key = 1000\<rparr>], live_rows := 1\<rparr>)"
  using C8_backend_startup_atomic [of "os0\<lparr>malloc_ok := (\<lambda>k. False)\<rparr>" running0 cfg0
      "''Cannot allocate memory''" port0]
    C8_backend_startup_atomic [of "os0\<lparr>fork_ret := (\<lambda>k. - 1)\<rparr>" running0 cfg0
      "''Resource temporarily unavailable''" port0]
    C8_backend_startup_atomic [of os0 running0 cfg0 "[]" port0]
  by (simp add: os0_def running0_def BackendStartup_def PostmasterRandom_def Let_def
      malloc_Backend_def free_Backend_def ereport_def emit_def tick_def
      canAcceptConnections_def CountChildren_def cfg0_def port0_def NoShutdown_def
      C_int_def)

section \<open>An unsupported protocol version\<close>

lemma BackendRun_unsupported:
  assumes w: "wire_packet pq lb body"
    and c: "ntohl_at body 0 \<noteq> CANCEL_REQUEST_CODE pq"
    and n: "ntohl_at body 0 \<noteq> NEGOTIATE_SSL_CODE pq"
    and m: "PG_PROTOCOL_MAJOR pq (PG_PROTOCOL_LATEST pq) < PG_PROTOCOL_MAJOR pq (ntohl_at body 0)"
  shows "BackendRun pq cfg nw bl port (lb @ body @ rest)
           = (FatalExit ERRCODE_FEATURE_NOT_SUPPORTED ''unsupported frontend protocol'', [])"
proof -
  have "spec_rejects_version pq (proto (port\<lparr>proto := ntohl_at body 0\<rparr>))"
    using m by (simp add: spec_rejects_version_def)
  then show ?thesis
    using c n
    by (simp add: BackendRun_def PSP_packet [OF w] ntohl_at_buf wire_packet_len [OF w]
        Let_def startup_params_reject)
qed

lemma BackendStartup_ok:
  assumes "malloc_ok sys (nsys s + 1)" "\<not> fork_ret sys (nsys s + 2) < 0"
  shows "fst (BackendStartup sys cfg err port s) = STATUS_OK"
    and "BackendList (snd (snd (BackendStartup sys cfg err port s)))
            = \<lparr>pid = fork_ret sys (nsys s + 2), cancel_key = random_ret sys (nsys s)\<rparr>
                # BackendList s"
    and "trace (snd (snd (BackendStartup sys cfg err port s)))
            = trace s @ [Forked ''backend'' (fork_ret sys (nsys s + 2)),
                         Ereport DEBUG2 ''forked new backend'']"
  using assms
  by (simp_all add: BackendStartup_def PostmasterRandom_def malloc_Backend_def Let_def
      ereport_def emit_def tick_def)

text \<open>
  C5, amended. The postmaster does not read the startup packet: it forks a backend for
  the connection, and the packet is read by that child. When the allocation and the fork
  succeed and the packet has a major version above the latest supported, the connection
  ends like this: \<^verbatim>\<open>BackendStartup\<close> returns \<^verbatim>\<open>STATUS_OK\<close>, the child ends with
  the unsupported-protocol error without going on to authentication, and the list of
  backends of the postmaster holds the entry of that child (its pid, the cancel key drawn
  for it) in front of the entries it held. What the postmaster's state becomes does not
  depend on the bytes the client sends.
\<close>

theorem C5_unsupported_protocol_after_spawn:
  "(wire_packet pq lb body \<and> ntohl_at body 0 \<noteq> CANCEL_REQUEST_CODE pq
      \<and> ntohl_at body 0 \<noteq> NEGOTIATE_SSL_CODE pq
      \<and> PG_PROTOCOL_MAJOR pq (PG_PROTOCOL_LATEST pq) < PG_PROTOCOL_MAJOR pq (ntohl_at body 0)
      \<and> malloc_ok sys (nsys s + 1) \<and> \<not> fork_ret sys (nsys s + 2) < 0 \<longrightarrow>
        fst (accept_connection pq sys cfg nw err port (lb @ body @ rest) s) = STATUS_OK
        \<and> snd (snd (accept_connection pq sys cfg nw err port (lb @ body @ rest) s))
            = Some (FatalExit ERRCODE_FEATURE_NOT_SUPPORTED ''unsupported frontend protocol'',
                    [])
        \<and> BackendList (fst (snd (accept_connection pq sys cfg nw err port
                                    (lb @ body @ rest) s)))
            = \<lparr>pid = fork_ret sys (nsys s + 2), cancel_key = random_ret sys (nsys s)\<rparr>
                # BackendList s
        \<and> trace (fst (snd (accept_connection pq sys cfg nw err port (lb @ body @ rest) s)))
            = trace s @ [Forked ''backend'' (fork_ret sys (nsys s + 2)),
                         Ereport DEBUG2 ''forked new backend''])
   \<and> fst (snd (accept_connection pq sys cfg nw err port inp s))
       = fst (snd (accept_connection pq sys cfg nw err port inp' s))"
proof (intro conjI impI)
  assume a: "wire_packet pq lb body \<and> ntohl_at body 0 \<noteq> CANCEL_REQUEST_CODE pq
      \<and> ntohl_at body 0 \<noteq> NEGOTIATE_SSL_CODE pq
      \<and> PG_PROTOCOL_MAJOR pq (PG_PROTOCOL_LATEST pq) < PG_PROTOCOL_MAJOR pq (ntohl_at body 0)
      \<and> malloc_ok sys (nsys s + 1) \<and> \<not> fork_ret sys (nsys s + 2) < 0"
  then have ok: "malloc_ok sys (nsys s + 1)" "\<not> fork_ret sys (nsys s + 2) < 0" by simp_all
  note bs = BackendStartup_ok [OF ok, of cfg err port]
  from a have run: "BackendRun pq cfg nw bl' port' (lb @ body @ rest)
           = (FatalExit ERRCODE_FEATURE_NOT_SUPPORTED ''unsupported frontend protocol'', [])"
    for bl' port'
    by (intro BackendRun_unsupported) simp_all
  show "fst (accept_connection pq sys cfg nw err port (lb @ body @ rest) s) = STATUS_OK"
    using bs(1) by (simp add: accept_connection_def case_prod_beta)
  show "snd (snd (accept_connection pq sys cfg nw err port (lb @ body @ rest) s))
            = Some (FatalExit ERRCODE_FEATURE_NOT_SUPPORTED ''unsupported frontend protocol'',
                    [])"
    using bs(1) by (simp add: accept_connection_def case_prod_beta run)
  show "BackendList (fst (snd (accept_connection pq sys cfg nw err port
                                    (lb @ body @ rest) s)))
            = \<lparr>pid = fork_ret sys (nsys s + 2), cancel_key = random_ret sys (nsys s)\<rparr>
                # BackendList s"
    using bs(2) by (simp add: accept_connection_def case_prod_beta)
  show "trace (fst (snd (accept_connection pq sys cfg nw err port (lb @ body @ rest) s)))
            = trace s @ [Forked ''backend'' (fork_ret sys (nsys s + 2)),
                         Ereport DEBUG2 ''forked new backend'']"
    using bs(3) by (simp add: accept_connection_def case_prod_beta)
next
  show "fst (snd (accept_connection pq sys cfg nw err port inp s))
       = fst (snd (accept_connection pq sys cfg nw err port inp' s))"
    by (simp add: accept_connection_def case_prod_beta)
qed

lemma BackendStartup_running0:
  "BackendStartup os0 cfg0 [] port0 running0
       = (STATUS_OK, port0,
          running0\<lparr>MyCancelKey := 1000, nsys := 3,
                    trace := [Forked ''backend'' 102, Ereport DEBUG2 ''forked new backend''],
                    BackendList := [\<lparr>pid = 102, cancel_key = 1000\<rparr>], live_rows := 1\<rparr>)"
  by (simp add: os0_def running0_def BackendStartup_def PostmasterRandom_def Let_def
      malloc_Backend_def free_Backend_def ereport_def emit_def tick_def
      canAcceptConnections_def CountChildren_def cfg0_def port0_def NoShutdown_def
      C_int_def)

lemma BackendRun_v4:
  "BackendRun pqcomm_h cfg0 net0 [] port0 (len8 @ body_v4)
     = (FatalExit ERRCODE_FEATURE_NOT_SUPPORTED ''unsupported frontend protocol'', [])"
  by (rule BackendRun_unsupported [OF wire_v4, where rest = "[]", simplified append_Nil2])
     (simp_all add: disc_v4 pqcomm_h_def)

text \<open>
  C5, as the claim states it, fails: a client that sends version 4.0 gets the
  unsupported-protocol error from a backend that was forked for it, and the list of
  backends, empty before, holds the entry of that backend.
\<close>

theorem C5_counterexample:
  "BackendList running0 = []
   \<and> accept_connection pqcomm_h os0 cfg0 net0 [] port0 (len8 @ body_v4) running0
       = (STATUS_OK,
          running0\<lparr>MyCancelKey := 1000, nsys := 3,
                    trace := [Forked ''backend'' 102, Ereport DEBUG2 ''forked new backend''],
                    BackendList := [\<lparr>pid = 102, cancel_key = 1000\<rparr>], live_rows := 1\<rparr>,
          Some (FatalExit ERRCODE_FEATURE_NOT_SUPPORTED ''unsupported frontend protocol'', []))"
proof -
  have e: "BackendList running0 = []" by (simp add: running0_def)
  show ?thesis
    by (simp add: accept_connection_def BackendStartup_running0 BackendRun_v4 e)
qed

theorem C5_unsupported_protocol_after_spawn_witness:
  "wire_packet pqcomm_h len8 body_v4
   \<and> snd (snd (accept_connection pqcomm_h os0 cfg0 net0 [] port0 (len8 @ body_v4 @ [])
                 running0))
       = Some (FatalExit ERRCODE_FEATURE_NOT_SUPPORTED ''unsupported frontend protocol'', [])
   \<and> BackendList (fst (snd (accept_connection pqcomm_h os0 cfg0 net0 [] port0
                               (len8 @ body_v4 @ []) running0)))
       = [\<lparr>pid = 102, cancel_key = 1000\<rparr>]"
  using C5_unsupported_protocol_after_spawn [of pqcomm_h len8 body_v4 os0 running0 cfg0 net0
      "[]" port0 "[]" "[]" "[]"] wire_v4
  by (simp add: disc_v4 pqcomm_h_def os0_def running0_def)


section \<open>The shutdown level\<close>

lemma keeps_refl: "keeps s s"
  by (simp add: keeps_def)

lemma keeps_Let: "keeps s a \<Longrightarrow> (\<And>x. keeps s x \<Longrightarrow> keeps s (f x)) \<Longrightarrow> keeps s (Let a f)"
  by simp

lemma keeps_Let_prod:
  "keeps s (snd a) \<Longrightarrow> (\<And>v x. keeps s x \<Longrightarrow> keeps s (f v x))
     \<Longrightarrow> keeps s (Let a (case_prod f))"
  by (cases a) simp

lemma keeps_if: "keeps s a \<Longrightarrow> keeps s b \<Longrightarrow> keeps s (if c then a else b)"
  by simp

lemma keeps_prims:
  "keeps s x \<Longrightarrow> keeps s (emit e x)"
  "keeps s x \<Longrightarrow> keeps s (ereport lev msg x)"
  "keeps s x \<Longrightarrow> keeps s (kill p sg x)"
  "keeps s x \<Longrightarrow> keeps s (tick x)"
  "keeps s x \<Longrightarrow> keeps s (LogChildExit lev name p st x)"
  "keeps s x \<Longrightarrow> keeps s (ExitPostmaster n x)"
  by (simp_all add: keeps_def emit_def ereport_def kill_def tick_def LogChildExit_def
      ExitPostmaster_def)

lemma keeps_alloc:
  "keeps s x \<Longrightarrow> keeps s (free_Backend x)"
  "keeps s x \<Longrightarrow> keeps s (snd (malloc_Backend sys x))"
  by (simp_all add: keeps_def free_Backend_def malloc_Backend_def tick_def Let_def)

lemma keeps_SignalChildren_loop:
  "keeps s x \<Longrightarrow> keeps s (SignalChildren_loop sg bl x)"
  by (induction bl arbitrary: x) (simp_all add: keeps_prims)

lemma keeps_SignalChildren: "keeps s x \<Longrightarrow> keeps s (SignalChildren sg x)"
  by (simp add: SignalChildren_def keeps_SignalChildren_loop)

lemma keeps_StartChildProcess:
  "keeps s x \<Longrightarrow> keeps s (snd (StartChildProcess sys k x))"
  by (simp add: StartChildProcess_def Let_def keeps_def emit_def ereport_def tick_def
      ExitPostmaster_def split: xlop.splits)

lemma keeps_aux_start: "keeps s x \<Longrightarrow> keeps s (snd (aux_start sys name x))"
  by (simp add: aux_start_def Let_def keeps_def emit_def tick_def)

lemmas keeps_starts =
  keeps_StartChildProcess [where k = BS_XLOG_STARTUP, folded StartupDataBase_def]
  keeps_StartChildProcess [where k = BS_XLOG_BGWRITER, folded StartBackgroundWriter_def]
  keeps_aux_start [where name = "''archiver''", folded pgarch_start_def]
  keeps_aux_start [where name = "''stats''", folded pgstat_start_def]
  keeps_aux_start [where name = "''logger''", folded SysLogger_Start_def]

lemmas keeps_rules =
  keeps_Let keeps_Let_prod keeps_if keeps_prims keeps_SignalChildren keeps_starts

lemma keeps_begin_shutdown: "keeps s x \<Longrightarrow> keeps s (begin_shutdown sys x)"
  unfolding begin_shutdown_def
  by (intro keeps_rules; simp add: keeps_def)

lemma keeps_HandleChildCrash_loop:
  "keeps s x \<Longrightarrow> keeps s (snd (HandleChildCrash_loop cfg p bl x))"
  by (induction bl arbitrary: x) (simp_all add: Let_def case_prod_beta keeps_prims keeps_alloc)

lemma keeps_CleanupBackend_loop:
  "keeps s x \<Longrightarrow> keeps s (snd (CleanupBackend_loop p bl x))"
  by (induction bl arbitrary: x) (simp_all add: Let_def case_prod_beta keeps_alloc)

lemma keeps_HandleChildCrash:
  "keeps s x \<Longrightarrow> keeps s (HandleChildCrash cfg p st name x)"
  unfolding HandleChildCrash_def
  by (intro keeps_rules keeps_HandleChildCrash_loop; simp add: keeps_def)

lemma keeps_CleanupBackend:
  "keeps s x \<Longrightarrow> keeps s (CleanupBackend cfg p st x)"
  unfolding CleanupBackend_def
  by (intro keeps_rules keeps_HandleChildCrash keeps_CleanupBackend_loop;
      simp add: keeps_def)

lemma keeps_reaper_child:
  "keeps s x \<Longrightarrow> keeps s (reaper_child sys cfg p st x)"
  unfolding reaper_child_def
  by (intro keeps_rules keeps_HandleChildCrash keeps_CleanupBackend; simp add: keeps_def)

lemma keeps_reaper_loop:
  "keeps s x \<Longrightarrow> keeps s (reaper_loop sys cfg pending x)"
  by (induction pending arbitrary: x) (auto simp add: Let_def keeps_reaper_child)

lemma keeps_reaper: "keeps s x \<Longrightarrow> keeps s (reaper sys cfg pending x)"
  unfolding reaper_def
  by (intro keeps_rules keeps_reaper_loop keeps_begin_shutdown; simp add: keeps_def)

lemma keeps_ServerLoop_maintenance:
  "keeps s x \<Longrightarrow> keeps s (ServerLoop_maintenance sys cfg x)"
  unfolding ServerLoop_maintenance_def
  by (intro keeps_rules; simp add: keeps_def)

lemma keeps_SIGHUP_handler: "keeps s x \<Longrightarrow> keeps s (SIGHUP_handler x)"
  unfolding SIGHUP_handler_def
  by (intro keeps_rules; simp add: keeps_def)

lemma keeps_sigusr1_handler: "keeps s x \<Longrightarrow> keeps s (sigusr1_handler a b x)"
  unfolding sigusr1_handler_def
  by (intro keeps_rules; simp add: keeps_def)

lemma keeps_BackendStartup:
  "keeps s x \<Longrightarrow> keeps s (snd (snd (BackendStartup sys cfg err port x)))"
  by (simp add: BackendStartup_def PostmasterRandom_def report_fork_failure_to_client_def
      malloc_Backend_def free_Backend_def Let_def case_prod_beta keeps_def ereport_def
      emit_def tick_def)

lemma pmdie_SIGQUIT: "keeps s (pmdie sys SIGQUIT s)"
  unfolding pmdie_def signal.case
  by (intro keeps_rules; simp add: keeps_def)

lemma pmdie_SIGTERM_ignored:
  "Shutdown s \<ge> SmartShutdown \<Longrightarrow>
     pmdie sys SIGTERM s = ereport DEBUG2 ''postmaster received signal'' s"
  by (simp add: pmdie_def Let_def ereport_def emit_def)

lemma pmdie_SIGINT_ignored:
  "Shutdown s \<ge> FastShutdown \<Longrightarrow>
     pmdie sys SIGINT s = ereport DEBUG2 ''postmaster received signal'' s"
  by (simp add: pmdie_def Let_def ereport_def emit_def)

lemma pmdie_SIGTERM_taken:
  "\<not> Shutdown s \<ge> SmartShutdown \<Longrightarrow> Shutdown (pmdie sys SIGTERM s) = SmartShutdown"
  using keeps_begin_shutdown [OF keeps_refl, unfolded keeps_def]
  by (simp add: pmdie_def Let_def ereport_def emit_def)

lemma pmdie_SIGINT_taken:
  "\<not> Shutdown s \<ge> FastShutdown \<Longrightarrow> Shutdown (pmdie sys SIGINT s) = FastShutdown"
  using keeps_begin_shutdown [OF keeps_refl, unfolded keeps_def]
    keeps_SignalChildren [OF keeps_refl, unfolded keeps_def]
  by (simp add: pmdie_def Let_def ereport_def emit_def)

lemma Shutdown_pmdie:
  "Shutdown (pmdie sys sg s) =
     (if sg = SIGTERM \<and> Shutdown s < SmartShutdown then SmartShutdown
      else if sg = SIGINT \<and> Shutdown s < FastShutdown then FastShutdown
      else Shutdown s)"
proof (cases sg)
  case SIGTERM
  then show ?thesis
    using pmdie_SIGTERM_ignored [of s sys] pmdie_SIGTERM_taken [of s sys]
    by (cases "Shutdown s \<ge> SmartShutdown") (simp_all add: ereport_def emit_def)
next
  case SIGINT
  then show ?thesis
    using pmdie_SIGINT_ignored [of s sys] pmdie_SIGINT_taken [of s sys]
    by (cases "Shutdown s \<ge> FastShutdown") (simp_all add: ereport_def emit_def)
next
  case SIGQUIT
  then show ?thesis using pmdie_SIGQUIT [of s sys] by (simp add: keeps_def)
qed (simp_all add: pmdie_def Let_def ereport_def emit_def)

lemmas Shutdown_handlers =
  keeps_SIGHUP_handler [OF keeps_refl, unfolded keeps_def]
  keeps_sigusr1_handler [OF keeps_refl, unfolded keeps_def]
  keeps_reaper [OF keeps_refl, unfolded keeps_def]
  keeps_BackendStartup [OF keeps_refl, unfolded keeps_def]
  keeps_ServerLoop_maintenance [OF keeps_refl, unfolded keeps_def]

lemma Shutdown_step:
  "Shutdown (step sys cfg ev s) =
     (if exit_status s = None \<and> ev = Sig SIGTERM \<and> Shutdown s < SmartShutdown
      then SmartShutdown
      else if exit_status s = None \<and> ev = Sig SIGINT \<and> Shutdown s < FastShutdown
      then FastShutdown
      else Shutdown s)"
proof (cases ev)
  case (Sig sg)
  then show ?thesis
    by (cases sg) (simp_all add: step_def Shutdown_pmdie Shutdown_handlers)
qed (simp_all add: step_def Shutdown_handlers)

lemma Shutdown_step_mono: "Shutdown s \<le> Shutdown (step sys cfg ev s)"
  by (simp add: Shutdown_step)

lemma Shutdown_run_mono: "Shutdown s \<le> Shutdown (run sys cfg evs s)"
proof (induction evs arbitrary: s)
  case Nil
  show ?case by simp
next
  case (Cons ev evs)
  have "Shutdown s \<le> Shutdown (step sys cfg ev s)" by (rule Shutdown_step_mono)
  also have "\<dots> \<le> Shutdown (run sys cfg evs (step sys cfg ev s))" by (rule Cons.IH)
  finally show ?case by simp
qed

lemma run_append: "run sys cfg (evs1 @ evs2) s = run sys cfg evs2 (run sys cfg evs1 s)"
  by (induction evs1 arbitrary: s) simp_all

text \<open>
  C4. No step of the postmaster lowers the shutdown level, so along every run the level
  after a longer prefix of the events is at least the level after a shorter one. A smart
  shutdown request at level SmartShutdown or above, and a fast shutdown request at level
  FastShutdown, leave the level as it is; the handler does nothing but write its debug
  line.
\<close>

theorem C4_shutdown_level_monotonic:
  "Shutdown s \<le> Shutdown (step sys cfg ev s)
   \<and> Shutdown (run sys cfg evs1 s) \<le> Shutdown (run sys cfg (evs1 @ evs2) s)
   \<and> (Shutdown s \<ge> SmartShutdown \<longrightarrow>
        Shutdown (step sys cfg (Sig SIGTERM) s) = Shutdown s
        \<and> pmdie sys SIGTERM s = ereport DEBUG2 ''postmaster received signal'' s)
   \<and> (Shutdown s \<ge> FastShutdown \<longrightarrow>
        Shutdown (step sys cfg (Sig SIGINT) s) = Shutdown s
        \<and> pmdie sys SIGINT s = ereport DEBUG2 ''postmaster received signal'' s)"
  by (simp add: Shutdown_step_mono run_append Shutdown_run_mono Shutdown_step
      pmdie_SIGTERM_ignored pmdie_SIGINT_ignored)

theorem C4_shutdown_level_monotonic_witness:
  "FastShutdown \<ge> SmartShutdown
   \<and> Shutdown (step os0 cfg0 (Sig SIGTERM) (running0\<lparr>Shutdown := FastShutdown\<rparr>))
       = FastShutdown
   \<and> Shutdown (step os0 cfg0 (Sig SIGINT) (running0\<lparr>Shutdown := FastShutdown\<rparr>))
       = FastShutdown
   \<and> Shutdown (run os0 cfg0 [Sig SIGTERM, Sig SIGINT] running0)
       \<le> Shutdown (run os0 cfg0 ([Sig SIGTERM, Sig SIGINT] @ [Sig SIGTERM, LoopTurn]) running0)"
  using C4_shutdown_level_monotonic [of "running0\<lparr>Shutdown := FastShutdown\<rparr>" os0 cfg0
      "Sig SIGTERM" "[]" "[]"]
    C4_shutdown_level_monotonic [of running0 os0 cfg0 "Sig SIGTERM" "[Sig SIGTERM, Sig SIGINT]"
      "[Sig SIGTERM, LoopTurn]"]
  by (simp add: running0_def SmartShutdown_def FastShutdown_def)



end
